theory Spec2Isabelle
  imports Complex_Main
begin

section \<open>Numbers and vectors\<close>

text \<open>
  A value of the C++ type \<open>float\<close> is modelled by the real number it stands for; infinities
  and NaN are left out. The arithmetic of \<open>Camera::Update\<close> is the arithmetic of the IEEE
  single format, in which a build for Direct3D 11 computes on \<open>float\<close> operands: a product
  is the exact product rounded to the nearest \<open>float\<close>, ties to the even significand, and an
  \<open>int\<close> is rounded in the same way when it is converted. There a product is truncated to an
  \<open>int\<close>, so a rounding can change the result by a whole unit.
  Everywhere else (the sums of \<open>Transform\<close>, the quotient of the window sizes, the angle of
  the animation) an operator of the source is the exact operation and a literal such as
  \<open>0.01f\<close> is the decimal it is written as; the theorems about those parts are about which
  expression the code evaluates, which arguments a call receives and which fields a method
  changes, and none of them rests on a rounding property. The quotient by 0 is 0 in \<open>real\<close>
  and an infinity or NaN in \<open>float\<close>: the theorems use a quotient only where the divisor is
  not 0.
  C++ \<open>int\<close> is modelled by \<open>int\<close>; the one place where its 32-bit range matters, the
  conversion of a \<open>float\<close> to \<open>int\<close>, checks the range. An array of the source is a
  list; an index computed at run time is checked against the length the array is declared
  with.
\<close>

type_synonym float = real

datatype XMFLOAT3 = XMFLOAT3 (get_x: float) (get_y: float) (get_z: float)

datatype XMFLOAT4 = XMFLOAT4 (get_r: float) (get_g: float) (get_b: float) (get_a: float)

text \<open>
  Behaviour that C++ leaves undefined is a value of the model: reading an array outside its
  bounds, and converting a \<open>float\<close> whose truncated value does not fit into \<open>int\<close>.
\<close>

datatype undefined_behaviour = OutOfBounds | FloatToIntOverflow

text \<open>
  The implicit conversion in \<open>int xDiff = <float expression>\<close>: the fractional part is
  discarded (truncation towards zero); the result must be representable in a 32-bit \<open>int\<close>.
\<close>

definition truncate_float :: "float \<Rightarrow> int" where
  "truncate_float v = (if v < 0 then - \<lfloor>- v\<rfloor> else \<lfloor>v\<rfloor>)"

definition float_to_int :: "float \<Rightarrow> undefined_behaviour + int" where
  "float_to_int v =
     (let t = truncate_float v
      in if - (2 ^ 31) \<le> t \<and> t < 2 ^ 31 then Inr t else Inl FloatToIntOverflow)"

subsection \<open>Rounding to the single format\<close>

text \<open>
  The finite values of the single format are the numbers \<open>m * 2^k\<close> with an integer
  significand \<open>m\<close>, \<open>\<bar>m\<bar> < 2^24\<close>, and \<open>-149 \<le> k \<le> 104\<close>. For \<open>a \<ge> 0\<close> the spacing of these values
  around \<open>a\<close> is \<open>ulp32 a\<close>: the largest power of two \<open>u\<close> between \<open>2^-149\<close> and \<open>2^104\<close>
  with \<open>2^23 * u \<le> a\<close>, and \<open>2^-149\<close> when there is none (the subnormal range). The search
  sets the eight binary digits of the exponent of \<open>u\<close> above \<open>-149\<close> from the highest down.
  \<open>round_to_float\<close> rounds to the nearest multiple of the spacing, a tie to the multiple with
  the even significand. A result of \<open>2^128\<close> or more stands for an overflow to infinity; its
  conversion to \<open>int\<close> is undefined like that of infinity.
\<close>

definition round_half_even :: "real \<Rightarrow> int" where
  "round_half_even q =
     (if q - of_int \<lfloor>q\<rfloor> < 1 / 2 then \<lfloor>q\<rfloor>
      else if 1 / 2 < q - of_int \<lfloor>q\<rfloor> then \<lfloor>q\<rfloor> + 1
      else if even \<lfloor>q\<rfloor> then \<lfloor>q\<rfloor> else \<lfloor>q\<rfloor> + 1)"

definition ulp_ok :: "real \<Rightarrow> real \<Rightarrow> bool" where
  "ulp_ok a u \<longleftrightarrow> u \<le> 2 ^ 104 \<and> 2 ^ 23 * u \<le> a"

fun ulp_search :: "nat list \<Rightarrow> real \<Rightarrow> real \<Rightarrow> real" where
  "ulp_search [] u a = u"
| "ulp_search (s # ss) u a =
     (if ulp_ok a (u * 2 ^ s) then ulp_search ss (u * 2 ^ s) a else ulp_search ss u a)"

text \<open>The steps of a search over \<open>j\<close> binary digits; the lemmas about the search use
  them.\<close>

fun steps :: "nat \<Rightarrow> nat list" where
  "steps 0 = []"
| "steps (Suc j) = 2 ^ j # steps j"

definition ulp32 :: "real \<Rightarrow> real" where
  "ulp32 a = ulp_search [128, 64, 32, 16, 8, 4, 2, 1] (1 / 2 ^ 149) a"

definition quantize :: "real \<Rightarrow> real \<Rightarrow> real" where
  "quantize u a = of_int (round_half_even (a / u)) * u"

definition round_to_float :: "real \<Rightarrow> float" where
  "round_to_float v = (if v < 0 then - quantize (ulp32 (- v)) (- v) else quantize (ulp32 v) v)"

text \<open>The operator \<open>*\<close> on two \<open>float\<close> operands, and the conversion of an \<open>int\<close> operand
  to \<open>float\<close>.\<close>

definition float_mul :: "float \<Rightarrow> float \<Rightarrow> float" where
  "float_mul a b = round_to_float (a * b)"

definition int_to_float :: "int \<Rightarrow> float" where
  "int_to_float i = round_to_float (of_int i)"

section \<open>The DirectXMath library\<close>

text \<open>
  DirectXMath is not part of the repository. Its functions are parameters of the model: the
  two matrix builders that \<open>Camera\<close> calls, and the rotation of a vector (first argument)
  by the orientation with a given pitch, yaw and roll (second argument), which \<open>Transform\<close>
  needs. The matrix type \<open>'m\<close> stands for \<open>XMFLOAT4X4\<close>. Every theorem that is stated for
  a library \<open>lib\<close> holds for any functions put in their place.
\<close>

record 'm DirectXMath =
  XMMatrixPerspectiveFovLH :: "float \<Rightarrow> float \<Rightarrow> float \<Rightarrow> float \<Rightarrow> 'm"
  XMMatrixLookToLH :: "XMFLOAT3 \<Rightarrow> XMFLOAT3 \<Rightarrow> XMFLOAT3 \<Rightarrow> 'm"
  XMVector3Rotate :: "XMFLOAT3 \<Rightarrow> XMFLOAT3 \<Rightarrow> XMFLOAT3"

section \<open>Transform\<close>

text \<open>
  \<open>Transform.cpp\<close> is not among the sources. The class is modelled from section 4.1 of the
  specification: a position, a rotation held as Euler angles (pitch, yaw, roll in the
  \<open>x\<close>, \<open>y\<close>, \<open>z\<close> components) and a scale (the field \<open>scaling\<close>).
\<close>

record Transform =
  position :: XMFLOAT3
  pitchYawRoll :: XMFLOAT3
  scaling :: XMFLOAT3

text \<open>Modelled from the spec: the constructor \<open>Transform()\<close>, which is missing from the
  sources; the identity placement (origin, no rotation, unit scale).\<close>

definition Transform_new :: Transform where
  "Transform_new =
     \<lparr>position = XMFLOAT3 0 0 0, pitchYawRoll = XMFLOAT3 0 0 0, scaling = XMFLOAT3 1 1 1\<rparr>"

text \<open>Modelled from the spec: \<open>Transform::SetPosition\<close>, missing from the sources;
  "overwrites absolute position".\<close>

definition SetPosition :: "float \<Rightarrow> float \<Rightarrow> float \<Rightarrow> Transform \<Rightarrow> Transform" where
  "SetPosition px py pz t = t\<lparr>position := XMFLOAT3 px py pz\<rparr>"

text \<open>Modelled from the spec: \<open>Transform::MoveAbsolute\<close>, missing from the sources;
  "adds a world-space delta to position".\<close>

definition MoveAbsolute :: "float \<Rightarrow> float \<Rightarrow> float \<Rightarrow> Transform \<Rightarrow> Transform" where
  "MoveAbsolute dx dy dz t =
     t\<lparr>position := XMFLOAT3 (get_x (position t) + dx) (get_y (position t) + dy)
                            (get_z (position t) + dz)\<rparr>"

text \<open>Modelled from the spec: \<open>Transform::MoveRelative\<close>, missing from the sources;
  "rotates the delta vector by the transform's current orientation before adding to
  position".\<close>

definition MoveRelative ::
  "('m, 'z) DirectXMath_scheme \<Rightarrow> float \<Rightarrow> float \<Rightarrow> float \<Rightarrow> Transform \<Rightarrow> Transform" where
  "MoveRelative lib dx dy dz t =
     (let d = XMVector3Rotate lib (XMFLOAT3 dx dy dz) (pitchYawRoll t)
      in t\<lparr>position := XMFLOAT3 (get_x (position t) + get_x d) (get_y (position t) + get_y d)
                               (get_z (position t) + get_z d)\<rparr>)"

text \<open>Modelled from the spec: \<open>Transform::Rotate\<close>, missing from the sources;
  "accumulates Euler-angle deltas; no clamping".\<close>

definition Rotate :: "float \<Rightarrow> float \<Rightarrow> float \<Rightarrow> Transform \<Rightarrow> Transform" where
  "Rotate p yw r t =
     t\<lparr>pitchYawRoll := XMFLOAT3 (get_x (pitchYawRoll t) + p) (get_y (pitchYawRoll t) + yw)
                                (get_z (pitchYawRoll t) + r)\<rparr>"

text \<open>Modelled from the spec: \<open>Transform::Scale\<close>, missing from the sources;
  "multiplicative".\<close>

definition Scale :: "float \<Rightarrow> float \<Rightarrow> float \<Rightarrow> Transform \<Rightarrow> Transform" where
  "Scale sx sy sz t =
     t\<lparr>scaling := XMFLOAT3 (get_x (scaling t) * sx) (get_y (scaling t) * sy)
                           (get_z (scaling t) * sz)\<rparr>"

text \<open>Modelled from the spec: \<open>Transform::GetPosition\<close>, missing from the sources.\<close>

definition GetPosition :: "Transform \<Rightarrow> XMFLOAT3" where
  "GetPosition t = position t"

text \<open>Modelled from the spec: \<open>Transform::GetForward\<close>, missing from the sources;
  "derived from current rotation", the world forward axis \<open>(0,0,1)\<close> turned by the
  orientation.\<close>

definition GetForward :: "('m, 'z) DirectXMath_scheme \<Rightarrow> Transform \<Rightarrow> XMFLOAT3" where
  "GetForward lib t = XMVector3Rotate lib (XMFLOAT3 0 0 1) (pitchYawRoll t)"

text \<open>
  The calls a client makes on a \<open>Transform\<close>, as data: a method of the model first lists the
  calls it issues, in the order of the source, and then runs them. This keeps the calls
  themselves (how many, with which arguments) observable.
\<close>

datatype TransformCall =
    CallMoveAbsolute float float float
  | CallMoveRelative float float float
  | CallRotate float float float
  | CallScale float float float

fun run_call :: "('m, 'z) DirectXMath_scheme \<Rightarrow> Transform \<Rightarrow> TransformCall \<Rightarrow> Transform" where
  "run_call lib t (CallMoveAbsolute dx dy dz) = MoveAbsolute dx dy dz t"
| "run_call lib t (CallMoveRelative dx dy dz) = MoveRelative lib dx dy dz t"
| "run_call lib t (CallRotate p yw r) = Rotate p yw r t"
| "run_call lib t (CallScale sx sy sz) = Scale sx sy sz t"

definition run_calls ::
  "('m, 'z) DirectXMath_scheme \<Rightarrow> Transform \<Rightarrow> TransformCall list \<Rightarrow> Transform" where
  "run_calls lib t calls = foldl (run_call lib) t calls"

fun is_Rotate :: "TransformCall \<Rightarrow> bool" where
  "is_Rotate (CallRotate p yw r) = True"
| "is_Rotate c = False"

fun is_MoveRelative :: "TransformCall \<Rightarrow> bool" where
  "is_MoveRelative (CallMoveRelative dx dy dz) = True"
| "is_MoveRelative c = False"

section \<open>Input\<close>

text \<open>
  \<open>Input.h\<close> is not among the sources. What the singleton answers during one frame is a
  record: the key queries, the state of the left mouse button and the cursor movement since
  the last poll, a whole number of pixels in each direction.
\<close>

record Input =
  KeyDown :: "char \<Rightarrow> bool"
  KeyPress :: "char \<Rightarrow> bool"
  MouseLeftDown :: bool
  GetMouseXDelta :: int
  GetMouseYDelta :: int

definition VK_ESCAPE :: char where
  "VK_ESCAPE = CHR 0x1B"

section \<open>Camera (Camera.cpp)\<close>

record 'm Camera =
  transform :: Transform
  moveSpeed :: float
  mouseLookSpeed :: float
  fov :: float
  aspectRatio :: float
  nearP :: float
  farP :: float
  viewMatrix :: 'm
  projectionMatrix :: 'm

definition UpdateViewMatrix :: "('m, 'z) DirectXMath_scheme \<Rightarrow> 'm Camera \<Rightarrow> 'm Camera" where
  "UpdateViewMatrix lib c =
     (let position = XMFLOAT3 (get_x (GetPosition (transform c)))
                              (get_y (GetPosition (transform c)))
                              (get_z (GetPosition (transform c)));
          direction = XMFLOAT3 (get_x (GetForward lib (transform c)))
                               (get_y (GetForward lib (transform c)))
                               (get_z (GetForward lib (transform c)));
          view = XMMatrixLookToLH lib position direction (XMFLOAT3 0 1 0)
      in c\<lparr>viewMatrix := view\<rparr>)"

definition UpdateProjectionMatrix ::
  "('m, 'z) DirectXMath_scheme \<Rightarrow> float \<Rightarrow> 'm Camera \<Rightarrow> 'm Camera" where
  "UpdateProjectionMatrix lib aspect c =
     (let proj = XMMatrixPerspectiveFovLH lib (fov c) aspect 0.01 1000
      in c\<lparr>projectionMatrix := proj\<rparr>)"

text \<open>
  The constructor. The member initialisers set the four scalars; the body sets \<open>nearP\<close>,
  \<open>farP\<close> and the transform and then calls the two update methods. The two matrices are
  not initialised (\<open>undefined\<close>) until those calls store into them.
\<close>

definition Camera_new ::
  "('m, 'z) DirectXMath_scheme \<Rightarrow> float \<Rightarrow> float \<Rightarrow> float \<Rightarrow> float \<Rightarrow> float \<Rightarrow> float \<Rightarrow> float
     \<Rightarrow> 'm Camera" where
  "Camera_new lib px py pz moveSpeed' mouseLookSpeed' fov' aspectRatio' =
     (let c = \<lparr>transform = SetPosition px py pz Transform_new,
               moveSpeed = moveSpeed', mouseLookSpeed = mouseLookSpeed', fov = fov',
               aspectRatio = aspectRatio', nearP = 0.1, farP = 1000,
               viewMatrix = undefined, projectionMatrix = undefined\<rparr>
      in UpdateProjectionMatrix lib aspectRatio' (UpdateViewMatrix lib c))"

definition key_move :: "Input \<Rightarrow> char \<Rightarrow> TransformCall \<Rightarrow> TransformCall list" where
  "key_move input k call = (if KeyDown input k then [call] else [])"

text \<open>
  The calls \<open>Camera::Update\<close> makes on its transform: one \<open>MoveRelative\<close> for each of the
  six keys that is down, then, while the left button is held, one \<open>Rotate\<close>. \<open>xDiff\<close> and
  \<open>yDiff\<close> are declared \<open>int\<close>: the cursor delta is converted to \<open>float\<close>, the product with
  \<open>mouseLookSpeed\<close> is a \<open>float\<close> product, and its value is truncated; the \<open>int\<close> is then
  converted to \<open>float\<close> again for the product with \<open>dt\<close>.
\<close>

definition Update_calls ::
  "Input \<Rightarrow> float \<Rightarrow> 'm Camera \<Rightarrow> undefined_behaviour + TransformCall list" where
  "Update_calls input dt c =
     (let moves =
            key_move input CHR ''W'' (CallMoveRelative 0 0 (float_mul (moveSpeed c) dt))
          @ key_move input CHR ''A'' (CallMoveRelative (float_mul (- moveSpeed c) dt) 0 0)
          @ key_move input CHR ''S'' (CallMoveRelative 0 0 (float_mul (- moveSpeed c) dt))
          @ key_move input CHR ''D'' (CallMoveRelative (float_mul (moveSpeed c) dt) 0 0)
          @ key_move input CHR ''Q'' (CallMoveRelative 0 (float_mul (moveSpeed c) dt) 0)
          @ key_move input CHR ''E'' (CallMoveRelative 0 (float_mul (- moveSpeed c) dt) 0)
      in if MouseLeftDown input then
           (case float_to_int
                   (float_mul (mouseLookSpeed c) (int_to_float (GetMouseXDelta input))) of
              Inl e \<Rightarrow> Inl e
            | Inr xDiff \<Rightarrow>
               (case float_to_int
                       (float_mul (mouseLookSpeed c) (int_to_float (GetMouseYDelta input))) of
                  Inl e \<Rightarrow> Inl e
                | Inr yDiff \<Rightarrow>
                    Inr (moves @ [CallRotate (float_mul (int_to_float yDiff) dt)
                                            (float_mul (int_to_float xDiff) dt) 0])))
         else Inr moves)"

definition Camera_Update ::
  "('m, 'z) DirectXMath_scheme \<Rightarrow> Input \<Rightarrow> float \<Rightarrow> 'm Camera \<Rightarrow> undefined_behaviour + 'm Camera"
  where
  "Camera_Update lib input dt c =
     (case Update_calls input dt c of
        Inl e \<Rightarrow> Inl e
      | Inr calls \<Rightarrow>
          Inr (UpdateViewMatrix lib (c\<lparr>transform := run_calls lib (transform c) calls\<rparr>)))"

definition GetTransform :: "'m Camera \<Rightarrow> Transform" where
  "GetTransform c = transform c"

definition GetView :: "'m Camera \<Rightarrow> 'm" where
  "GetView c = viewMatrix c"

definition GetProjection :: "'m Camera \<Rightarrow> 'm" where
  "GetProjection c = projectionMatrix c"

definition GetFov :: "'m Camera \<Rightarrow> float" where
  "GetFov c = fov c"

section \<open>Game (Game.cpp)\<close>

text \<open>
  \<open>Game.h\<close>, \<open>GameEntity\<close>, \<open>Mesh.cpp\<close>, \<open>DXCore\<close> and the ImGui overlay are not among the
  sources. The fields of \<open>Game\<close> are the ones \<open>Game.cpp\<close> reads and writes: the window size
  of the base class, the arrays \<open>shapes[5]\<close> and \<open>camera[3]\<close>, the index \<open>activeCamera\<close>, the
  flag \<open>going\<close> and the four arrays the overlay widgets edit. An entity is its transform and
  the two fields of its mesh (\<open>Mesh.h\<close>) that the CPU side touches.
\<close>

record GameEntity =
  entity_transform :: Transform
  indexCount :: int
  colorTint :: XMFLOAT4

record 'm Game =
  windowWidth :: nat
  windowHeight :: nat
  shapes :: "GameEntity list"
  camera :: "'m Camera list"
  activeCamera :: int
  going :: bool
  translation :: "XMFLOAT3 list"
  rotation :: "XMFLOAT3 list"
  scale :: "XMFLOAT3 list"
  colorOffset :: "XMFLOAT4 list"

text \<open>
  What the overlay answers during one frame: whether each collapsing header is open, for each
  drag or colour widget the new value when the user changed it (the widget then returns
  \<open>true\<close> and has stored the value into the array it was given), and whether the button was
  clicked. \<open>ColorEdit3\<close> edits the first three components.
\<close>

record Overlay =
  shape_header :: "nat \<Rightarrow> bool"
  drag_translation :: "nat \<Rightarrow> XMFLOAT3 option"
  drag_rotation :: "nat \<Rightarrow> XMFLOAT3 option"
  drag_scale :: "nat \<Rightarrow> XMFLOAT3 option"
  color_edit :: "nat \<Rightarrow> XMFLOAT3 option"
  camera_header :: bool
  change_camera_button :: bool

text \<open>
  The calls a frame makes on its collaborators, in the order it makes them. The methods of
  \<open>Game\<close> return this trace next to the new state, so that the order of the phases of a frame
  can be stated.
\<close>

datatype Event =
    EvOverlayCall nat TransformCall
  | EvOverlaySetTint nat XMFLOAT4
  | EvAnimate nat TransformCall
  | EvCameraUpdate int float
  | EvQuit
  | EvClearRenderTargetView
  | EvClearDepthStencilView
  | EvEntityDraw nat int
  | EvImGuiRender
  | EvPresent

type_synonym 'm traced = "'m Game \<times> Event list"

text \<open>\<open>shapes[i]->GetTransform()-><call>\<close>, recorded with the tag of the block that makes it.\<close>

definition shape_call ::
  "('m, 'z) DirectXMath_scheme \<Rightarrow> (nat \<Rightarrow> TransformCall \<Rightarrow> Event) \<Rightarrow> nat \<Rightarrow> TransformCall
     \<Rightarrow> 'm traced \<Rightarrow> 'm traced" where
  "shape_call lib tag i call s =
     (let g = fst s;
          e = shapes g ! i;
          e' = e\<lparr>entity_transform := run_call lib (entity_transform e) call\<rparr>
      in (g\<lparr>shapes := (shapes g)[i := e']\<rparr>, snd s @ [tag i call]))"

text \<open>Modelled from the spec: \<open>Mesh::SetTint\<close>, whose body (\<open>Mesh.cpp\<close>) is missing from the
  sources; it stores the "mutable tint".\<close>

definition SetTint :: "float \<Rightarrow> float \<Rightarrow> float \<Rightarrow> float \<Rightarrow> GameEntity \<Rightarrow> GameEntity" where
  "SetTint r g b a e = e\<lparr>colorTint := XMFLOAT4 r g b a\<rparr>"

definition call_of_vector :: "(float \<Rightarrow> float \<Rightarrow> float \<Rightarrow> TransformCall) \<Rightarrow> XMFLOAT3 \<Rightarrow> TransformCall"
  where
  "call_of_vector f v = f (get_x v) (get_y v) (get_z v)"

text \<open>The body of the loop over the five shapes in the overlay block of \<open>Game::Update\<close>.\<close>

definition overlay_shape ::
  "('m, 'z) DirectXMath_scheme \<Rightarrow> Overlay \<Rightarrow> nat \<Rightarrow> 'm traced \<Rightarrow> 'm traced" where
  "overlay_shape lib ui i s =
     (if shape_header ui i then
        (let s1 = (case drag_translation ui i of
                     None \<Rightarrow> s
                   | Some v \<Rightarrow>
                       shape_call lib EvOverlayCall i (call_of_vector CallMoveAbsolute v)
                         ((fst s)\<lparr>translation := (translation (fst s))[i := v]\<rparr>, snd s));
             s2 = (case drag_rotation ui i of
                     None \<Rightarrow> s1
                   | Some v \<Rightarrow>
                       shape_call lib EvOverlayCall i (call_of_vector CallRotate v)
                         ((fst s1)\<lparr>rotation := (rotation (fst s1))[i := v]\<rparr>, snd s1));
             s3 = (case drag_scale ui i of
                     None \<Rightarrow> s2
                   | Some v \<Rightarrow>
                       shape_call lib EvOverlayCall i (call_of_vector CallScale v)
                         ((fst s2)\<lparr>scale := (scale (fst s2))[i := v]\<rparr>, snd s2));
             s4 = (case color_edit ui i of
                     None \<Rightarrow> s3
                   | Some v \<Rightarrow>
                       (let g = fst s3;
                            col = XMFLOAT4 (get_x v) (get_y v) (get_z v) (get_a (colorOffset g ! i));
                            g' = g\<lparr>colorOffset := (colorOffset g)[i := col]\<rparr>;
                            e = SetTint (get_r col) (get_g col) (get_b col) (get_a col)
                                  (shapes g' ! i)
                        in (g'\<lparr>shapes := (shapes g')[i := e]\<rparr>, snd s3 @ [EvOverlaySetTint i col])))
         in s4)
      else s)"

function overlay_shapes ::
  "('m, 'z) DirectXMath_scheme \<Rightarrow> Overlay \<Rightarrow> nat \<Rightarrow> 'm traced \<Rightarrow> 'm traced" where
  "overlay_shapes lib ui i s =
     (if i < 5 then overlay_shapes lib ui (i + 1) (overlay_shape lib ui i s) else s)"
  by pat_completeness auto
termination
  by (relation "measure (\<lambda>(lib, ui, i, s). 5 - i)") auto

declare overlay_shapes.simps [simp del]

text \<open>
  The operator \<open>%\<close> of C++ on \<open>int\<close> truncates towards zero: the remainder has the sign of
  the dividend.
\<close>

definition c_rem :: "int \<Rightarrow> int \<Rightarrow> int" where
  "c_rem a b = sgn a * (\<bar>a\<bar> mod \<bar>b\<bar>)"

text \<open>
  The statement \<open>activeCamera = (activeCamera + 1) % 3\<close>, written at both places that switch
  the camera: under the button of the overlay and under the key \<open>C\<close>. For an index among
  0, 1 and 2, where the theorems use it, the sum is far from the range of \<open>int\<close>.
\<close>

definition switch_camera :: "'m Game \<Rightarrow> 'm Game" where
  "switch_camera g = g\<lparr>activeCamera := c_rem (activeCamera g + 1) 3\<rparr>"

text \<open>\<open>camera[k]\<close> for an index computed at run time; the array has three elements.\<close>

definition camera_at :: "'m Game \<Rightarrow> int \<Rightarrow> undefined_behaviour + 'm Camera" where
  "camera_at g k = (if 0 \<le> k \<and> k < 3 then Inr (camera g ! nat k) else Inl OutOfBounds)"

text \<open>
  The first block of \<open>Game::Update\<close>: the overlay. The two \<open>Text\<close> lines under the camera
  header read \<open>camera[activeCamera]\<close>.
\<close>

definition Update_overlay ::
  "('m, 'z) DirectXMath_scheme \<Rightarrow> Input \<Rightarrow> Overlay \<Rightarrow> 'm traced \<Rightarrow> undefined_behaviour + 'm traced"
  where
  "Update_overlay lib input ui s =
     (let s1 = overlay_shapes lib ui 0 s;
          r = (if camera_header ui then
                 (case camera_at (fst s1) (activeCamera (fst s1)) of
                    Inl e \<Rightarrow> Inl e
                  | Inr c \<Rightarrow>
                      Inr (if change_camera_button ui then (switch_camera (fst s1), snd s1)
                           else s1))
               else Inr s1)
      in case r of
           Inl e \<Rightarrow> Inl e
         | Inr s2 \<Rightarrow>
             Inr (if KeyPress input CHR ''C'' then (switch_camera (fst s2), snd s2) else s2))"

definition XMConvertToRadians :: "float \<Rightarrow> float" where
  "XMConvertToRadians fDegrees = fDegrees * (pi / 180)"

definition set_going :: "bool \<Rightarrow> 'm traced \<Rightarrow> 'm traced" where
  "set_going b s = ((fst s)\<lparr>going := b\<rparr>, snd s)"

text \<open>The second block of \<open>Game::Update\<close>: the scripted animation of the shapes.\<close>

definition Update_animate ::
  "('m, 'z) DirectXMath_scheme \<Rightarrow> float \<Rightarrow> 'm traced \<Rightarrow> 'm traced" where
  "Update_animate lib deltaTime s =
     (let s1 =
            (if get_x (GetPosition (entity_transform (shapes (fst s) ! 0))) \<le> 1.0 \<and> going (fst s)
             then
               shape_call lib EvAnimate 4 (CallMoveAbsolute (- 0.001) (- 0.001) 0.0)
                 (shape_call lib EvAnimate 0 (CallMoveAbsolute 0.001 0.001 0.0) s)
             else if get_x (GetPosition (entity_transform (shapes (fst s) ! 0))) > 0.0
             then
               shape_call lib EvAnimate 4 (CallMoveAbsolute 0.001 0.001 0.0)
                 (shape_call lib EvAnimate 0 (CallMoveAbsolute (- 0.001) (- 0.001) 0.0)
                    (set_going False s))
             else set_going True s);
          s2 =
            (if \<not> going (fst s1) then shape_call lib EvAnimate 2 (CallScale 0.999 0.999 1.0) s1
             else if going (fst s1) then shape_call lib EvAnimate 2 (CallScale 1.001 1.001 1.0) s1
             else s1);
          s3 = shape_call lib EvAnimate 3
                 (CallRotate 0.0 0.0 (deltaTime * XMConvertToRadians 10)) s2;
          s4 = shape_call lib EvAnimate 1
                 (CallRotate 0.0 0.0 (deltaTime * XMConvertToRadians 10)) s3
      in s4)"

text \<open>\<open>camera[activeCamera]->Update(deltaTime)\<close>, the statement after the two blocks.\<close>

definition Update_camera ::
  "('m, 'z) DirectXMath_scheme \<Rightarrow> Input \<Rightarrow> float \<Rightarrow> 'm traced \<Rightarrow> undefined_behaviour + 'm traced"
  where
  "Update_camera lib input deltaTime s =
     (let g = fst s
      in case camera_at g (activeCamera g) of
           Inl e \<Rightarrow> Inl e
         | Inr c \<Rightarrow>
            (case Camera_Update lib input deltaTime c of
               Inl e \<Rightarrow> Inl e
             | Inr c' \<Rightarrow>
                 Inr (g\<lparr>camera := (camera g)[nat (activeCamera g) := c']\<rparr>,
                      snd s @ [EvCameraUpdate (activeCamera g) deltaTime])))"

definition Game_Update ::
  "('m, 'z) DirectXMath_scheme \<Rightarrow> Input \<Rightarrow> Overlay \<Rightarrow> float \<Rightarrow> 'm Game
     \<Rightarrow> undefined_behaviour + 'm traced" where
  "Game_Update lib input ui deltaTime g =
     (case Update_overlay lib input ui (g, []) of
        Inl e \<Rightarrow> Inl e
      | Inr s1 \<Rightarrow>
         (case Update_camera lib input deltaTime (Update_animate lib deltaTime s1) of
            Inl e \<Rightarrow> Inl e
          | Inr s2 \<Rightarrow>
              Inr (if KeyDown input VK_ESCAPE then (fst s2, snd s2 @ [EvQuit]) else s2)))"

text \<open>
  \<open>Game::Draw\<close> changes no field of \<open>Game\<close>; it is its trace. Each turn of the loop
  reads \<open>camera[activeCamera]\<close> and hands it to \<open>shapes[i]->Draw\<close>.
\<close>

function draw_shapes :: "'m Game \<Rightarrow> nat \<Rightarrow> Event list \<Rightarrow> undefined_behaviour + Event list" where
  "draw_shapes g i evs =
     (if i < 5 then
        (case camera_at g (activeCamera g) of
           Inl e \<Rightarrow> Inl e
         | Inr c \<Rightarrow> draw_shapes g (i + 1) (evs @ [EvEntityDraw i (activeCamera g)]))
      else Inr evs)"
  by pat_completeness auto
termination
  by (relation "measure (\<lambda>(g, i, evs). 5 - i)") auto

declare draw_shapes.simps [simp del]

definition Game_Draw :: "'m Game \<Rightarrow> undefined_behaviour + Event list" where
  "Game_Draw g =
     (case draw_shapes g 0 [EvClearRenderTargetView, EvClearDepthStencilView] of
        Inl e \<Rightarrow> Inl e
      | Inr evs \<Rightarrow> Inr (evs @ [EvImGuiRender, EvPresent]))"

text \<open>
  \<open>Game::OnResize\<close>: the loop over the three cameras. The call of the base class
  \<open>DXCore::OnResize\<close>, which resizes the swap chain, touches no field of the model.
\<close>

function OnResize_loop :: "('m, 'z) DirectXMath_scheme \<Rightarrow> nat \<Rightarrow> 'm Game \<Rightarrow> 'm Game" where
  "OnResize_loop lib i g =
     (if i < 3 then
        OnResize_loop lib (i + 1)
          (g\<lparr>camera := (camera g)[i :=
                UpdateProjectionMatrix lib (real (windowWidth g) / real (windowHeight g))
                  (camera g ! i)]\<rparr>)
      else g)"
  by pat_completeness auto
termination
  by (relation "measure (\<lambda>(lib, i, g). 3 - i)") auto

declare OnResize_loop.simps [simp del]

definition Game_OnResize :: "('m, 'z) DirectXMath_scheme \<Rightarrow> 'm Game \<Rightarrow> 'm Game" where
  "Game_OnResize lib g = OnResize_loop lib 0 g"

text \<open>The three cameras \<open>Game::Init\<close> creates.\<close>

definition Init_cameras :: "('m, 'z) DirectXMath_scheme \<Rightarrow> 'm Game \<Rightarrow> 'm Camera list" where
  "Init_cameras lib g =
     [Camera_new lib 10.0 0.0 (- 10.0) 5.0 10.0 (pi / 2)
        (real (windowWidth g) / real (windowHeight g)),
      Camera_new lib 0.0 0.0 (- 10.0) 5.0 10.0 (pi / 3)
        (real (windowWidth g) / real (windowHeight g)),
      Camera_new lib (- 10.0) 0.0 (- 10.0) 5.0 10.0 (pi / 4)
        (real (windowWidth g) / real (windowHeight g))]"

section \<open>The phases of a frame\<close>

text \<open>
  The four phases the specification names for a frame, and the phase an event belongs to.
  The calls of the overlay, the clearing of the buffers and the quit signal belong to none
  of the four.
\<close>

datatype Phase = AdvanceCamera | AdvanceEntities | DrawEntities | PresentFrame

fun phase_of :: "Event \<Rightarrow> Phase option" where
  "phase_of (EvCameraUpdate k dt) = Some AdvanceCamera"
| "phase_of (EvAnimate i call) = Some AdvanceEntities"
| "phase_of (EvEntityDraw i k) = Some DrawEntities"
| "phase_of EvPresent = Some PresentFrame"
| "phase_of e = None"

fun phases_of :: "Event list \<Rightarrow> Phase list" where
  "phases_of [] = []"
| "phases_of (e # es) = (case phase_of e of None \<Rightarrow> phases_of es | Some p \<Rightarrow> p # phases_of es)"

text \<open>The phases of a trace in the order they occur, each run of one phase counted once.\<close>

definition frame_phases :: "Event list \<Rightarrow> Phase list" where
  "frame_phases evs = remdups_adj (phases_of evs)"

fun is_EntityDraw :: "Event \<Rightarrow> bool" where
  "is_EntityDraw (EvEntityDraw i k) = True"
| "is_EntityDraw e = False"

fun is_CameraUpdate :: "Event \<Rightarrow> bool" where
  "is_CameraUpdate (EvCameraUpdate k dt) = True"
| "is_CameraUpdate e = False"

section \<open>Concrete inputs\<close>

text \<open>
  Values on which the model is run below. The stand-in for the library returns, as the
  matrix, the list of the arguments a builder was called with, and turns no vector. The
  game is the one \<open>Game::Init\<close> and \<open>CreateGeometry\<close> set up for the window of 1280 by 720
  that the constructor of \<open>Game\<close> asks for: five shapes with 3, 6, 7, 3 and 6 indices and the
  three cameras; the fields whose initial values \<open>Game.h\<close> would give are chosen here.
\<close>

definition recording_library :: "float list DirectXMath" where
  "recording_library =
     \<lparr>XMMatrixPerspectiveFovLH = (\<lambda>fovAngleY aspect nearZ farZ. [fovAngleY, aspect, nearZ, farZ]),
      XMMatrixLookToLH = (\<lambda>eye dir up.
         [get_x eye, get_y eye, get_z eye, get_x dir, get_y dir, get_z dir,
          get_x up, get_y up, get_z up]),
      XMVector3Rotate = (\<lambda>v r. v)\<rparr>"

definition example_entity :: "int \<Rightarrow> GameEntity" where
  "example_entity n = \<lparr>entity_transform = Transform_new, indexCount = n,
                        colorTint = XMFLOAT4 1 1 1 1\<rparr>"

definition example_game :: "float list Game" where
  "example_game =
     (let g = \<lparr>windowWidth = 1280, windowHeight = 720,
               shapes = [example_entity 3, example_entity 6, example_entity 7,
                         example_entity 3, example_entity 6],
               camera = [], activeCamera = 0, going = True,
               translation = [XMFLOAT3 0 0 0, XMFLOAT3 0 0 0, XMFLOAT3 0 0 0, XMFLOAT3 0 0 0,
                              XMFLOAT3 0 0 0],
               rotation = [XMFLOAT3 0 0 0, XMFLOAT3 0 0 0, XMFLOAT3 0 0 0, XMFLOAT3 0 0 0,
                           XMFLOAT3 0 0 0],
               scale = [XMFLOAT3 1 1 1, XMFLOAT3 1 1 1, XMFLOAT3 1 1 1, XMFLOAT3 1 1 1,
                        XMFLOAT3 1 1 1],
               colorOffset = [XMFLOAT4 0 0 0 0, XMFLOAT4 0 0 0 0, XMFLOAT4 0 0 0 0,
                              XMFLOAT4 0 0 0 0, XMFLOAT4 0 0 0 0]\<rparr>
      in g\<lparr>camera := Init_cameras recording_library g\<rparr>)"

definition example_camera :: "float list Camera" where
  "example_camera = Camera_new recording_library 10.0 0.0 (- 10.0) 5.0 10.0 (pi / 2) (16 / 9)"

text \<open>No key down, no button held, the cursor at rest; every header of the overlay closed.\<close>

definition idle_input :: Input where
  "idle_input = \<lparr>KeyDown = (\<lambda>k. False), KeyPress = (\<lambda>k. False), MouseLeftDown = False,
                  GetMouseXDelta = 0, GetMouseYDelta = 0\<rparr>"

definition closed_overlay :: Overlay where
  "closed_overlay = \<lparr>shape_header = (\<lambda>i. False), drag_translation = (\<lambda>i. None),
                      drag_rotation = (\<lambda>i. None), drag_scale = (\<lambda>i. None),
                      color_edit = (\<lambda>i. None), camera_header = False,
                      change_camera_button = False\<rparr>"

text \<open>
  \<open>W\<close> is down and the left button is held while the cursor moves by \<open>(4, -3)\<close>; the
  same with a cursor movement of \<open>(1, 3)\<close> and no key; a camera whose look sensitivity is
  one half; an overlay in which the camera header is open and the button is clicked; an input
  in which \<open>C\<close> has just been pressed.
\<close>

definition held_input :: Input where
  "held_input = \<lparr>KeyDown = (\<lambda>k. k = CHR ''W''), KeyPress = (\<lambda>k. False), MouseLeftDown = True,
                  GetMouseXDelta = 4, GetMouseYDelta = - 3\<rparr>"

definition drag_input :: Input where
  "drag_input = \<lparr>KeyDown = (\<lambda>k. False), KeyPress = (\<lambda>k. False), MouseLeftDown = True,
                  GetMouseXDelta = 1, GetMouseYDelta = 3\<rparr>"

definition slow_camera :: "float list Camera" where
  "slow_camera = Camera_new recording_library 0.0 0.0 0.0 5.0 0.5 (pi / 2) (16 / 9)"

text \<open>
  A camera whose look sensitivity is the \<open>float\<close> nearest to 0.7, and an input with the
  button held and the cursor moved by 10 to the right: the exact product is a little below
  7, the \<open>float\<close> product is 7.
\<close>

definition fine_camera :: "float list Camera" where
  "fine_camera = Camera_new recording_library 0.0 0.0 0.0 5.0 (11744051 / 16777216) (pi / 2) (16 / 9)"

definition look_input :: Input where
  "look_input = \<lparr>KeyDown = (\<lambda>k. False), KeyPress = (\<lambda>k. False), MouseLeftDown = True,
                  GetMouseXDelta = 10, GetMouseYDelta = 0\<rparr>"

definition button_overlay :: Overlay where
  "button_overlay = \<lparr>shape_header = (\<lambda>i. False), drag_translation = (\<lambda>i. None),
                      drag_rotation = (\<lambda>i. None), drag_scale = (\<lambda>i. None),
                      color_edit = (\<lambda>i. None), camera_header = True,
                      change_camera_button = True\<rparr>"

definition key_C_input :: Input where
  "key_C_input = \<lparr>KeyDown = (\<lambda>k. False), KeyPress = (\<lambda>k. k = CHR ''C''),
                   MouseLeftDown = False, GetMouseXDelta = 0, GetMouseYDelta = 0\<rparr>"

section \<open>Lemmas about rounding\<close>

text \<open>
  The rounding is the one of the single format: in the normal range the spacing \<open>u\<close> is the
  power of two with \<open>2^23 * u \<le> a < 2^24 * u\<close>, below it the spacing is \<open>2^-149\<close>; the
  rounded value is an integer multiple of the spacing, at most half a spacing away, and a
  value half way between two multiples goes to the even one.
\<close>

lemma round_half_even_near: "\<bar>of_int (round_half_even q) - q\<bar> \<le> 1 / 2"
  unfolding round_half_even_def by (auto simp: abs_if) linarith+

lemma ulp_search_pos: "0 < u \<Longrightarrow> 0 < ulp_search ss u a"
  by (induction ss arbitrary: u) auto

lemma ulp_ok_down: "0 < u \<Longrightarrow> u \<le> w \<Longrightarrow> ulp_ok a w \<Longrightarrow> ulp_ok a u"
  unfolding ulp_ok_def by (smt (verit) mult_left_mono zero_le_numeral zero_le_power)

lemma ulp_search_subnormal:
  "0 < u \<Longrightarrow> \<not> ulp_ok a u \<Longrightarrow> ulp_search ss u a = u"
proof (induction ss)
  case Nil
  then show ?case by simp
next
  case (Cons s ss)
  have "u \<le> u * 2 ^ s" using Cons.prems(1) by simp
  then have "\<not> ulp_ok a (u * 2 ^ s)"
    using ulp_ok_down [OF Cons.prems(1)] Cons.prems(2) by blast
  with Cons show ?case by simp
qed

lemma steps_8: "steps 8 = [128, 64, 32, 16, 8, 4, 2, 1]"
  by (simp add: numeral_eq_Suc)

lemma ulp_search_greedy:
  assumes "0 < u" and "ulp_ok a u" and "\<not> ulp_ok a (u * 2 ^ (2 ^ j))"
  shows "\<exists>n < 2 ^ j. ulp_search (steps j) u a = u * 2 ^ n
           \<and> ulp_ok a (u * 2 ^ n) \<and> \<not> ulp_ok a (u * 2 ^ Suc n)"
  using assms
proof (induction j arbitrary: u)
  case 0
  then show ?case by (intro exI [of _ 0]) simp
next
  case (Suc j)
  have m: "u * 2 ^ (2 ^ j) * 2 ^ k = u * 2 ^ (2 ^ j + k)" for k
    by (simp add: power_add)
  show ?case
  proof (cases "ulp_ok a (u * 2 ^ (2 ^ j))")
    case True
    have p: "(0::real) < u * 2 ^ (2 ^ j)" using Suc.prems(1) by simp
    have e: "\<not> ulp_ok a (u * 2 ^ (2 ^ j) * 2 ^ (2 ^ j))"
      using Suc.prems(3) by (simp add: m mult_2)
    from Suc.IH [OF p True e]
    obtain n where n: "n < 2 ^ j"
      "ulp_search (steps j) (u * 2 ^ (2 ^ j)) a = u * 2 ^ (2 ^ j) * 2 ^ n"
      "ulp_ok a (u * 2 ^ (2 ^ j) * 2 ^ n)"
      "\<not> ulp_ok a (u * 2 ^ (2 ^ j) * 2 ^ Suc n)"
      by auto
    have "2 ^ j + n < 2 ^ Suc j" using n(1) by simp
    moreover have "ulp_search (steps (Suc j)) u a = u * 2 ^ (2 ^ j + n)"
      using True n(2) by (simp only: steps.simps ulp_search.simps if_True m)
    moreover have "ulp_ok a (u * 2 ^ (2 ^ j + n))" using n(3) unfolding m .
    moreover have "\<not> ulp_ok a (u * 2 ^ Suc (2 ^ j + n))"
      using n(4) unfolding m by simp
    ultimately show ?thesis by blast
  next
    case False
    from Suc.IH [OF Suc.prems(1) Suc.prems(2) False]
    obtain n where n: "n < 2 ^ j"
      "ulp_search (steps j) u a = u * 2 ^ n"
      "ulp_ok a (u * 2 ^ n)"
      "\<not> ulp_ok a (u * 2 ^ Suc n)"
      by auto
    have "n < 2 ^ Suc j" using n(1) by simp
    moreover have "ulp_search (steps (Suc j)) u a = u * 2 ^ n"
      using False n(2) by (simp only: steps.simps ulp_search.simps if_False)
    ultimately show ?thesis using n(3,4) by blast
  qed
qed


lemma ulp32_normal:
  assumes "1 / 2 ^ 126 \<le> a" and "a < 2 ^ 128"
  shows "\<exists>n \<le> 253. ulp32 a = 2 ^ n / 2 ^ 149
           \<and> 2 ^ 23 * ulp32 a \<le> a \<and> a < 2 ^ 24 * ulp32 a"
proof -
  have p: "(0::real) < 1 / 2 ^ 149" by simp
  have ok: "ulp_ok a (1 / 2 ^ 149)"
    using assms(1) by (simp add: ulp_ok_def)
  have no: "\<not> ulp_ok a (1 / 2 ^ 149 * 2 ^ (2 ^ 8))"
    by (simp add: ulp_ok_def)
  from ulp_search_greedy [OF p ok no]
  obtain n where n: "n < 2 ^ 8"
    "ulp32 a = 1 / 2 ^ 149 * 2 ^ n"
    "ulp_ok a (1 / 2 ^ 149 * 2 ^ n)"
    "\<not> ulp_ok a (1 / 2 ^ 149 * 2 ^ Suc n)"
    unfolding ulp32_def steps_8 by auto
  have le: "(2::real) ^ n \<le> 2 ^ 253"
    using n(3) by (simp add: ulp_ok_def field_simps)
  then have n253: "n \<le> 253"
    by (rule power_le_imp_le_exp [rotated]) simp
  have lo: "2 ^ 23 * ulp32 a \<le> a"
    using n(3) unfolding n(2) ulp_ok_def by simp
  have hi: "a < 2 ^ 24 * ulp32 a"
  proof (cases "n = 253")
    case True
    then show ?thesis using assms(2) unfolding n(2) by simp
  next
    case False
    with n253 have "Suc n \<le> 253" by simp
    then have "(2::real) ^ Suc n \<le> 2 ^ 253"
      by (rule power_increasing) simp
    then have "1 / 2 ^ 149 * 2 ^ Suc n \<le> (2::real) ^ 104"
      by (simp add: field_simps)
    with n(4) have "\<not> 2 ^ 23 * (1 / 2 ^ 149 * 2 ^ Suc n) \<le> a"
      unfolding ulp_ok_def by blast
    then show ?thesis unfolding n(2) by simp
  qed
  show ?thesis using n253 n(2) lo hi by (intro exI [of _ n]) simp
qed

lemma ulp32_subnormal:
  assumes "a < 1 / 2 ^ 126"
  shows "ulp32 a = 1 / 2 ^ 149"
proof -
  have "\<not> ulp_ok a (1 / 2 ^ 149)"
    using assms by (simp add: ulp_ok_def)
  then show ?thesis
    unfolding ulp32_def by (intro ulp_search_subnormal) simp_all
qed

lemma ulp32_pos: "0 < ulp32 a"
  unfolding ulp32_def by (rule ulp_search_pos) simp

lemma quantize_nearest:
  assumes "0 < u"
  shows "\<bar>quantize u a - a\<bar> \<le> u / 2"
proof -
  have "quantize u a - a = (of_int (round_half_even (a / u)) - a / u) * u"
    using assms by (simp add: quantize_def field_simps)
  then have "\<bar>quantize u a - a\<bar> = \<bar>of_int (round_half_even (a / u)) - a / u\<bar> * u"
    using assms by (simp add: abs_mult)
  also have "\<dots> \<le> 1 / 2 * u"
    using round_half_even_near [of "a / u"] assms by (intro mult_right_mono) simp_all
  finally show ?thesis by simp
qed

lemma round_to_float_nearest:
  "\<bar>round_to_float v - v\<bar> \<le> ulp32 \<bar>v\<bar> / 2
   \<and> (\<exists>m. round_to_float v = of_int m * ulp32 \<bar>v\<bar>)"
proof (cases "v < 0")
  case True
  have "\<bar>- quantize (ulp32 (- v)) (- v) - v\<bar> = \<bar>quantize (ulp32 (- v)) (- v) - (- v)\<bar>"
    by simp
  also have "\<dots> \<le> ulp32 (- v) / 2"
    by (rule quantize_nearest [OF ulp32_pos])
  finally have "\<bar>round_to_float v - v\<bar> \<le> ulp32 \<bar>v\<bar> / 2"
    using True by (simp add: round_to_float_def)
  moreover have "round_to_float v = of_int (- round_half_even (- v / ulp32 (- v))) * ulp32 \<bar>v\<bar>"
    using True by (simp add: round_to_float_def quantize_def)
  ultimately show ?thesis by blast
next
  case False
  have "\<bar>quantize (ulp32 v) v - v\<bar> \<le> ulp32 v / 2"
    by (rule quantize_nearest [OF ulp32_pos])
  then have "\<bar>round_to_float v - v\<bar> \<le> ulp32 \<bar>v\<bar> / 2"
    using False by (simp add: round_to_float_def)
  moreover have "round_to_float v = of_int (round_half_even (v / ulp32 v)) * ulp32 \<bar>v\<bar>"
    using False by (simp add: round_to_float_def quantize_def)
  ultimately show ?thesis by blast
qed

lemma round_half_even_tie: "even (round_half_even (of_int m + 1 / 2))"
proof -
  have "\<lfloor>of_int m + (1 / 2 :: real)\<rfloor> = m" by linarith
  then show ?thesis by (simp add: round_half_even_def)
qed

section \<open>Lemmas about the camera\<close>

lemma run_calls_roll:
  "\<forall>call \<in> set calls. is_MoveRelative call \<or> (\<exists>p yw. call = CallRotate p yw 0) \<Longrightarrow>
     get_z (pitchYawRoll (run_calls lib t calls)) = get_z (pitchYawRoll t)"
  unfolding run_calls_def
proof (induction calls arbitrary: t)
  case Nil
  then show ?case by simp
next
  case (Cons call calls)
  have "get_z (pitchYawRoll (run_call lib t call)) = get_z (pitchYawRoll t)"
    using Cons.prems by (cases call) (auto simp: MoveRelative_def Rotate_def Let_def)
  with Cons show ?case by simp
qed

lemma Update_calls_kinds:
  "Update_calls input dt c = Inr calls \<Longrightarrow>
     \<forall>call \<in> set calls. is_MoveRelative call \<or> (\<exists>p yw. call = CallRotate p yw 0)"
  by (auto simp: Update_calls_def key_move_def Let_def split: sum.splits if_splits)

lemma key_move_no_Rotate:
  "filter is_Rotate (key_move input k (CallMoveRelative a b c)) = []"
  by (simp add: key_move_def)

lemma Update_calls_held:
  assumes "MouseLeftDown input" and "Update_calls input dt c = Inr calls"
  shows "filter is_Rotate calls =
     [CallRotate
        (float_mul (int_to_float (truncate_float
           (float_mul (mouseLookSpeed c) (int_to_float (GetMouseYDelta input))))) dt)
        (float_mul (int_to_float (truncate_float
           (float_mul (mouseLookSpeed c) (int_to_float (GetMouseXDelta input))))) dt) 0]"
  using assms
  by (auto simp: Update_calls_def float_to_int_def Let_def key_move_no_Rotate
      split: sum.splits if_splits)

lemma Update_calls_not_held:
  assumes "\<not> MouseLeftDown input"
  shows "\<exists>calls. Update_calls input dt c = Inr calls \<and> filter is_Rotate calls = []"
  using assms by (simp add: Update_calls_def Let_def key_move_no_Rotate)

lemma truncate_float_bound: "\<bar>v\<bar> < 2 ^ 31 \<Longrightarrow> - (2 ^ 31) \<le> truncate_float v \<and> truncate_float v < 2 ^ 31"
proof (cases "v < 0")
  case True
  assume b: "\<bar>v\<bar> < 2 ^ 31"
  define n where "n = \<lfloor>- v\<rfloor>"
  from True have n0: "0 \<le> n" by (simp add: n_def)
  from b True have "- v < of_int (2 ^ 31)" by simp
  then have n1: "n < 2 ^ 31" unfolding n_def by (simp only: floor_less_iff)
  have "truncate_float v = - n" using True by (simp add: truncate_float_def n_def)
  with n0 n1 show ?thesis by simp
next
  case False
  assume b: "\<bar>v\<bar> < 2 ^ 31"
  define n where "n = \<lfloor>v\<rfloor>"
  from False have n0: "0 \<le> n" by (simp add: n_def)
  from b False have "v < of_int (2 ^ 31)" by simp
  then have n1: "n < 2 ^ 31" unfolding n_def by (simp only: floor_less_iff)
  have "truncate_float v = n" using False by (simp add: truncate_float_def n_def)
  with n0 n1 show ?thesis by simp
qed

lemma Update_calls_defined:
  assumes "\<bar>float_mul (mouseLookSpeed c) (int_to_float (GetMouseXDelta input))\<bar> < 2 ^ 31"
    and "\<bar>float_mul (mouseLookSpeed c) (int_to_float (GetMouseYDelta input))\<bar> < 2 ^ 31"
  shows "\<exists>calls. Update_calls input dt c = Inr calls"
  using truncate_float_bound [OF assms(1)] truncate_float_bound [OF assms(2)]
  by (simp add: Update_calls_def float_to_int_def Let_def)

section \<open>Lemmas about the frame\<close>

lemma phases_of_append: "phases_of (xs @ ys) = phases_of xs @ phases_of ys"
  by (induction xs) (auto split: option.splits)

lemma snd_shape_call: "snd (shape_call lib tag i call s) = snd s @ [tag i call]"
  by (simp add: shape_call_def Let_def)

lemma activeCamera_shape_call:
  "activeCamera (fst (shape_call lib tag i call s)) = activeCamera (fst s)"
  by (simp add: shape_call_def Let_def)

lemma going_shape_call: "going (fst (shape_call lib tag i call s)) = going (fst s)"
  by (simp add: shape_call_def Let_def)

lemma overlay_shape_phases: "phases_of (snd (overlay_shape lib ui i s)) = phases_of (snd s)"
  by (simp add: overlay_shape_def Let_def snd_shape_call phases_of_append split: option.splits)

lemma overlay_shape_activeCamera:
  "activeCamera (fst (overlay_shape lib ui i s)) = activeCamera (fst s)"
  by (simp add: overlay_shape_def Let_def activeCamera_shape_call split: option.splits)

lemma overlay_shapes_phases: "phases_of (snd (overlay_shapes lib ui i s)) = phases_of (snd s)"
proof (induction lib ui i s rule: overlay_shapes.induct)
  case (1 lib ui i s)
  show ?case
  proof (cases "i < 5")
    case True
    with 1 show ?thesis
      by (subst overlay_shapes.simps) (simp add: overlay_shape_phases)
  next
    case False
    then show ?thesis by (subst overlay_shapes.simps) simp
  qed
qed

lemma overlay_shapes_activeCamera:
  "activeCamera (fst (overlay_shapes lib ui i s)) = activeCamera (fst s)"
proof (induction lib ui i s rule: overlay_shapes.induct)
  case (1 lib ui i s)
  show ?case
  proof (cases "i < 5")
    case True
    with 1 show ?thesis
      by (subst overlay_shapes.simps) (simp add: overlay_shape_activeCamera)
  next
    case False
    then show ?thesis by (subst overlay_shapes.simps) simp
  qed
qed

lemma activeCamera_switch_camera:
  "activeCamera g \<in> {0, 1, 2} \<Longrightarrow> activeCamera (switch_camera g) = (activeCamera g + 1) mod 3"
  by (auto simp: switch_camera_def c_rem_def)

lemma in_range_iff: "(v::int) \<in> {0, 1, 2} \<longleftrightarrow> 0 \<le> v \<and> v < 3"
  by auto

lemma mod3_in_range: "((v::int) + 1) mod 3 \<in> {0, 1, 2}"
proof -
  have "0 \<le> (v + 1) mod 3" "(v + 1) mod 3 < 3" by simp_all
  then show ?thesis unfolding in_range_iff by simp
qed

lemma Update_overlay_phases:
  assumes "Update_overlay lib input ui s = Inr s'"
  shows "phases_of (snd s') = phases_of (snd s)"
  using assms overlay_shapes_phases [of lib ui 0 s]
  by (auto simp: Update_overlay_def Let_def split: if_splits sum.splits)

lemma Update_overlay_result:
  assumes "0 \<le> activeCamera (fst s)" and "activeCamera (fst s) < 3"
  shows "Update_overlay lib input ui s =
           Inr (let s1 = overlay_shapes lib ui 0 s;
                    s2 = (if camera_header ui \<and> change_camera_button ui
                          then (switch_camera (fst s1), snd s1) else s1)
                in if KeyPress input CHR ''C'' then (switch_camera (fst s2), snd s2) else s2)"
  using assms
  by (simp add: Update_overlay_def Let_def camera_at_def overlay_shapes_activeCamera)

lemma Update_overlay_activeCamera:
  assumes "activeCamera (fst s) \<in> {0, 1, 2}"
  shows "\<exists>s'. Update_overlay lib input ui s = Inr s' \<and>
           activeCamera (fst s') =
             (let v = activeCamera (fst s);
                  v1 = (if camera_header ui \<and> change_camera_button ui then (v + 1) mod 3 else v)
              in if KeyPress input CHR ''C'' then (v1 + 1) mod 3 else v1)"
proof -
  have r: "0 \<le> activeCamera (fst s)" "activeCamera (fst s) < 3"
    using assms by auto
  have a1: "activeCamera (fst (overlay_shapes lib ui 0 s)) \<in> {0, 1, 2}"
    using assms by (simp only: overlay_shapes_activeCamera)
  have m: "activeCamera (switch_camera (fst (overlay_shapes lib ui 0 s))) \<in> {0, 1, 2}"
    using a1 by (simp add: activeCamera_switch_camera mod3_in_range del: insert_iff)
  show ?thesis
    unfolding Update_overlay_result [OF r]
    using a1 m
    by (simp add: Let_def activeCamera_switch_camera overlay_shapes_activeCamera del: insert_iff)
qed

lemma Update_animate_activeCamera:
  "activeCamera (fst (Update_animate lib dt s)) = activeCamera (fst s)"
  by (simp add: Update_animate_def Let_def activeCamera_shape_call set_going_def)

lemma Update_animate_phases:
  "\<exists>n>0. phases_of (snd (Update_animate lib dt s))
            = phases_of (snd s) @ replicate n AdvanceEntities"
proof -
  have "phases_of (snd (Update_animate lib dt s)) = phases_of (snd s) @ replicate 5 AdvanceEntities
      \<or> phases_of (snd (Update_animate lib dt s)) = phases_of (snd s) @ replicate 3 AdvanceEntities"
    by (simp add: Update_animate_def Let_def snd_shape_call going_shape_call set_going_def
        phases_of_append numeral_eq_Suc)
  then show ?thesis by (metis zero_less_numeral)
qed

lemma Update_camera_trace:
  "Update_camera lib input dt s = Inr s' \<Longrightarrow>
     snd s' = snd s @ [EvCameraUpdate (activeCamera (fst s)) dt]
     \<and> activeCamera (fst s') = activeCamera (fst s)"
  by (auto simp: Update_camera_def Let_def split: sum.splits)


lemma no_camera_phase:
  "AdvanceCamera \<notin> set (phases_of evs) \<Longrightarrow> filter is_CameraUpdate evs = []"
proof (induction evs)
  case Nil
  then show ?case by simp
next
  case (Cons e evs)
  then show ?case by (cases e) auto
qed

lemma Game_Update_trace:
  assumes "Game_Update lib input ui dt g = Inr s"
  shows "\<exists>n>0. phases_of (snd s) = replicate n AdvanceEntities @ [AdvanceCamera]"
    and "filter is_CameraUpdate (snd s) = [EvCameraUpdate (activeCamera (fst s)) dt]"
proof -
  from assms obtain s1 s2 where
    o: "Update_overlay lib input ui (g, []) = Inr s1" and
    c: "Update_camera lib input dt (Update_animate lib dt s1) = Inr s2" and
    s: "s = (if KeyDown input VK_ESCAPE then (fst s2, snd s2 @ [EvQuit]) else s2)"
    by (auto simp: Game_Update_def split: sum.splits)
  have p1: "phases_of (snd s1) = []"
    using Update_overlay_phases [OF o] by simp
  obtain n where n: "0 < n"
    "phases_of (snd (Update_animate lib dt s1)) = phases_of (snd s1) @ replicate n AdvanceEntities"
    using Update_animate_phases by blast
  have t: "snd s2 = snd (Update_animate lib dt s1)
             @ [EvCameraUpdate (activeCamera (fst (Update_animate lib dt s1))) dt]"
    and a: "activeCamera (fst s2) = activeCamera (fst (Update_animate lib dt s1))"
    using Update_camera_trace [OF c] by simp_all
  have "phases_of (snd s) = replicate n AdvanceEntities @ [AdvanceCamera]"
    using s t n(2) p1 by (simp add: phases_of_append)
  with n(1) show "\<exists>n>0. phases_of (snd s) = replicate n AdvanceEntities @ [AdvanceCamera]"
    by blast
  have "filter is_CameraUpdate (snd (Update_animate lib dt s1)) = []"
    using n(2) p1 by (intro no_camera_phase) simp
  then show "filter is_CameraUpdate (snd s) = [EvCameraUpdate (activeCamera (fst s)) dt]"
    using s t a by simp
qed

lemma draw_shapes_trace:
  "draw_shapes g i evs = Inr evs' \<Longrightarrow>
     evs' = evs @ map (\<lambda>j. EvEntityDraw j (activeCamera g)) [i..<5]"
proof (induction g i evs arbitrary: evs' rule: draw_shapes.induct)
  case (1 g i evs)
  show ?case
  proof (cases "i < 5")
    case True
    from "1.prems" True obtain c where
      c: "camera_at g (activeCamera g) = Inr c" and
      r: "draw_shapes g (i + 1) (evs @ [EvEntityDraw i (activeCamera g)]) = Inr evs'"
      by (subst (asm) draw_shapes.simps) (auto split: sum.splits)
    have "evs' = (evs @ [EvEntityDraw i (activeCamera g)])
                  @ map (\<lambda>j. EvEntityDraw j (activeCamera g)) [i + 1..<5]"
      by (rule "1.IH" [OF True c r])
    with True show ?thesis by (simp add: upt_conv_Cons)
  next
    case False
    with "1.prems" show ?thesis by (subst (asm) draw_shapes.simps) simp
  qed
qed

lemma draw_shapes_defined:
  "0 \<le> activeCamera g \<Longrightarrow> activeCamera g < 3 \<Longrightarrow> \<exists>evs'. draw_shapes g i evs = Inr evs'"
proof (induction g i evs rule: draw_shapes.induct)
  case (1 g i evs)
  show ?case
  proof (cases "i < 5")
    case True
    have c: "camera_at g (activeCamera g) = Inr (camera g ! nat (activeCamera g))"
      using "1.prems" by (simp add: camera_at_def)
    from "1.IH" [OF True c "1.prems"] True c show ?thesis
      by (subst draw_shapes.simps) simp
  next
    case False
    then show ?thesis by (subst draw_shapes.simps) simp
  qed
qed

lemma Game_Draw_trace:
  assumes "Game_Draw g = Inr evs"
  shows "evs = [EvClearRenderTargetView, EvClearDepthStencilView]
               @ map (\<lambda>j. EvEntityDraw j (activeCamera g)) [0..<5] @ [EvImGuiRender, EvPresent]"
  using assms by (auto simp: Game_Draw_def split: sum.splits dest: draw_shapes_trace)

lemma upt_0_5: "[0..<5] = [0, 1, 2, 3, 4]"
  by (simp add: upt_conv_Cons)

lemma Game_Draw_phases:
  assumes "Game_Draw g = Inr evs"
  shows "phases_of evs = replicate 5 DrawEntities @ [PresentFrame]"
  unfolding Game_Draw_trace [OF assms] by (simp add: upt_0_5 numeral_eq_Suc)

lemma Game_Draw_defined:
  "0 \<le> activeCamera g \<Longrightarrow> activeCamera g < 3 \<Longrightarrow> \<exists>evs. Game_Draw g = Inr evs"
  using draw_shapes_defined [of g 0 "[EvClearRenderTargetView, EvClearDepthStencilView]"]
  by (auto simp: Game_Draw_def)

lemma remdups_adj_replicate_append:
  "0 < n \<Longrightarrow> remdups_adj (replicate n a @ ys) = remdups_adj (a # ys)"
proof (induction n)
  case 0
  then show ?case by simp
next
  case (Suc n)
  then show ?case by (cases n) auto
qed

lemma frame_phases_of_frame:
  assumes "Game_Update lib input ui dt g = Inr s" and "Game_Draw g' = Inr evD"
  shows "frame_phases (snd s @ evD) = [AdvanceEntities, AdvanceCamera, DrawEntities, PresentFrame]"
proof -
  obtain n where n: "0 < n" "phases_of (snd s) = replicate n AdvanceEntities @ [AdvanceCamera]"
    using Game_Update_trace(1) [OF assms(1)] by blast
  have "phases_of (snd s @ evD)
          = replicate n AdvanceEntities @ (AdvanceCamera # replicate 5 DrawEntities @ [PresentFrame])"
    by (simp add: phases_of_append n(2) Game_Draw_phases [OF assms(2)])
  then show ?thesis
    using n(1) by (simp add: frame_phases_def remdups_adj_replicate_append numeral_eq_Suc)
qed

lemma Update_calls_error:
  "Update_calls input dt c = Inl e \<Longrightarrow> e = FloatToIntOverflow"
  by (auto simp: Update_calls_def float_to_int_def Let_def split: sum.splits if_splits)

lemma Camera_Update_error:
  "Camera_Update lib input dt c = Inl e \<Longrightarrow> e = FloatToIntOverflow"
  by (auto simp: Camera_Update_def split: sum.splits dest: Update_calls_error)

lemma Game_Update_in_bounds:
  assumes "activeCamera g \<in> {0, 1, 2}"
  shows "Game_Update lib input ui dt g \<noteq> Inl OutOfBounds"
    and "Game_Update lib input ui dt g = Inr s \<Longrightarrow> activeCamera (fst s) \<in> {0, 1, 2}"
proof -
  obtain s1 where
    o: "Update_overlay lib input ui (g, []) = Inr s1" and
    a: "activeCamera (fst s1) \<in> {0, 1, 2}"
  proof -
    from Update_overlay_activeCamera [of "(g, [])" lib input ui] assms
    obtain s' where s': "Update_overlay lib input ui (g, []) = Inr s'"
      "activeCamera (fst s') =
             (let v = activeCamera (fst (g, []));
                  v1 = (if camera_header ui \<and> change_camera_button ui then (v + 1) mod 3 else v)
              in if KeyPress input CHR ''C'' then (v1 + 1) mod 3 else v1)"
      by auto
    have "activeCamera (fst s') \<in> {0, 1, 2}"
      unfolding s'(2) using assms by (simp add: Let_def mod3_in_range del: insert_iff)
    with s'(1) show ?thesis by (rule that)
  qed
  let ?s2 = "Update_animate lib dt s1"
  have a2: "activeCamera (fst ?s2) \<in> {0, 1, 2}"
    using a by (simp only: Update_animate_activeCamera)
  then have c: "camera_at (fst ?s2) (activeCamera (fst ?s2))
                  = Inr (camera (fst ?s2) ! nat (activeCamera (fst ?s2)))"
    by (auto simp: camera_at_def)
  show "Game_Update lib input ui dt g \<noteq> Inl OutOfBounds"
    using o c
    by (auto simp: Game_Update_def Update_camera_def Let_def split: sum.splits
        dest: Camera_Update_error)
  show "activeCamera (fst s) \<in> {0, 1, 2}" if "Game_Update lib input ui dt g = Inr s"
  proof -
    from that o obtain s3 where
      u: "Update_camera lib input dt ?s2 = Inr s3" and
      s: "s = (if KeyDown input VK_ESCAPE then (fst s3, snd s3 @ [EvQuit]) else s3)"
      by (auto simp: Game_Update_def split: sum.splits)
    have "activeCamera (fst s3) = activeCamera (fst ?s2)"
      using Update_camera_trace [OF u] by simp
    with a2 s show ?thesis by (simp del: insert_iff)
  qed
qed

lemma Camera_Update_defined:
  "\<not> MouseLeftDown input \<Longrightarrow> \<exists>c'. Camera_Update lib input dt c = Inr c'"
  using Update_calls_not_held [of input dt c] by (auto simp: Camera_Update_def)

lemma Game_Update_defined:
  assumes "activeCamera g \<in> {0, 1, 2}" and "\<not> MouseLeftDown input"
  shows "\<exists>s. Game_Update lib input ui dt g = Inr s"
proof -
  from Update_overlay_activeCamera [of "(g, [])" lib input ui] assms(1)
  obtain s1 where o: "Update_overlay lib input ui (g, []) = Inr s1" and
    a: "activeCamera (fst s1) =
             (let v = activeCamera (fst (g, []));
                  v1 = (if camera_header ui \<and> change_camera_button ui then (v + 1) mod 3 else v)
              in if KeyPress input CHR ''C'' then (v1 + 1) mod 3 else v1)"
    by auto
  have "activeCamera (fst s1) \<in> {0, 1, 2}"
    unfolding a using assms(1) by (simp add: Let_def mod3_in_range del: insert_iff)
  then have a2: "activeCamera (fst (Update_animate lib dt s1)) \<in> {0, 1, 2}"
    by (simp only: Update_animate_activeCamera)
  obtain c' where "Camera_Update lib input dt
      (camera (fst (Update_animate lib dt s1)) ! nat (activeCamera (fst (Update_animate lib dt s1))))
      = Inr c'"
    using Camera_Update_defined [OF assms(2)] by blast
  with a2 o show ?thesis
    by (auto simp: Game_Update_def Update_camera_def camera_at_def Let_def)
qed

lemma OnResize_loop_three:
  assumes "camera g = [c0, c1, c2]"
  shows "OnResize_loop lib 0 g =
           g\<lparr>camera := map (UpdateProjectionMatrix lib (real (windowWidth g) / real (windowHeight g)))
                          [c0, c1, c2]\<rparr>"
  using assms
  apply (subst OnResize_loop.simps, simp)
  apply (subst OnResize_loop.simps, simp)
  apply (subst OnResize_loop.simps, simp)
  apply (subst OnResize_loop.simps, simp)
  done

lemma length_three: "length xs = 3 \<Longrightarrow> \<exists>a b c. xs = [a, b, c]"
  by (cases xs; cases "tl xs"; cases "tl (tl xs)") auto

lemma Game_OnResize_cameras:
  assumes "length (camera g) = 3"
  shows "Game_OnResize lib g =
           g\<lparr>camera := map (UpdateProjectionMatrix lib (real (windowWidth g) / real (windowHeight g)))
                          (camera g)\<rparr>"
proof -
  from length_three [OF assms] obtain c0 c1 c2 where c: "camera g = [c0, c1, c2]" by blast
  show ?thesis
    unfolding Game_OnResize_def OnResize_loop_three [OF c] c by simp
qed

section \<open>Evaluation on the concrete inputs\<close>

lemmas float_eval =
  float_mul_def int_to_float_def round_to_float_def ulp32_def ulp_ok_def quantize_def
  round_half_even_def

lemma float_mul_look_speed_example:
  "float_mul (11744051 / 16777216) (int_to_float 10) = 7
   \<and> truncate_float (float_mul (11744051 / 16777216) (int_to_float 10)) = 7
   \<and> truncate_float (11744051 / 16777216 * 10) = 6"
  by (simp add: float_eval truncate_float_def)

lemma int_to_float_rounds_example:
  "int_to_float 16777217 = 16777216 \<and> float_mul 1 (int_to_float 16777217) = 16777216"
  by (simp add: float_eval)

lemma round_to_float_examples:
  "round_to_float (1 / 10) = 13421773 / 2 ^ 27
   \<and> round_to_float (1 / 100) = 10737418 / 2 ^ 30
   \<and> round_to_float (2 ^ 24 + 3) = 2 ^ 24 + 4
   \<and> round_to_float (3 / 2 ^ 150) = 2 / 2 ^ 149
   \<and> round_to_float (- (3 / 2)) = - (3 / 2)
   \<and> round_to_float 0 = 0"
  by (simp add: float_eval)

lemmas camera_eval =
  float_eval
  Update_calls_def key_move_def float_to_int_def truncate_float_def Camera_new_def
  UpdateProjectionMatrix_def UpdateViewMatrix_def run_calls_def MoveRelative_def Rotate_def
  SetPosition_def Transform_new_def GetPosition_def GetForward_def recording_library_def Let_def

lemmas frame_eval =
  Game_Update_def Update_overlay_def overlay_shapes.simps overlay_shape_def Update_animate_def
  shape_call_def Update_camera_def camera_at_def Init_cameras_def Camera_Update_def
  Update_calls_def key_move_def set_going_def example_entity_def Transform_new_def
  GetPosition_def Let_def VK_ESCAPE_def example_game_def closed_overlay_def idle_input_def

lemma held_calls:
  "Update_calls held_input (1 / 64) example_camera
     = Inr [CallMoveRelative 0 0 (5 / 64), CallRotate (- 30 / 64) (40 / 64) 0]"
  by (simp add: camera_eval held_input_def example_camera_def)

lemma held_update:
  "Camera_Update recording_library held_input (1 / 64) example_camera
     = Inr (projr (Camera_Update recording_library held_input (1 / 64) example_camera))"
  unfolding Camera_Update_def held_calls by simp

lemma held_view:
  "GetView (projr (Camera_Update recording_library held_input (1 / 64) example_camera))
     = [10, 0, - 635 / 64, 0, 0, 1, 0, 1, 0]"
  unfolding Camera_Update_def held_calls
  by (simp add: camera_eval example_camera_def GetView_def)

lemma held_roll:
  "pitchYawRoll (transform (projr (Camera_Update recording_library held_input (1 / 64)
      example_camera))) = XMFLOAT3 (- 30 / 64) (40 / 64) 0"
  unfolding Camera_Update_def held_calls
  by (simp add: camera_eval example_camera_def)

lemma drag_calls: "Update_calls drag_input 1 slow_camera = Inr [CallRotate 1 0 0]"
  by (simp add: camera_eval drag_input_def slow_camera_def)

lemma look_calls: "Update_calls look_input 1 fine_camera = Inr [CallRotate 0 7 0]"
  by (simp add: camera_eval look_input_def fine_camera_def)

lemma idle_frame_defined:
  "Game_Update recording_library idle_input closed_overlay 1 example_game
     = Inr (projr (Game_Update recording_library idle_input closed_overlay 1 example_game))"
  by (simp add: frame_eval)

lemma idle_frame_trace:
  "snd (projr (Game_Update recording_library idle_input closed_overlay 1 example_game)) =
     [EvAnimate 0 (CallMoveAbsolute 0.001 0.001 0),
      EvAnimate 4 (CallMoveAbsolute (- 0.001) (- 0.001) 0),
      EvAnimate 2 (CallScale 1.001 1.001 1),
      EvAnimate 3 (CallRotate 0 0 (XMConvertToRadians 10)),
      EvAnimate 1 (CallRotate 0 0 (XMConvertToRadians 10)),
      EvCameraUpdate 0 1]"
  by (simp add: frame_eval)

lemma idle_frame_activeCamera:
  "activeCamera (fst (projr (Game_Update recording_library idle_input closed_overlay 1
      example_game))) = 0"
  by (simp add: frame_eval)

lemma idle_frame_draw:
  "Game_Draw (fst (projr (Game_Update recording_library idle_input closed_overlay 1
      example_game)))
   = Inr (projr (Game_Draw (fst (projr (Game_Update recording_library idle_input closed_overlay 1
      example_game)))))"
proof -
  from Game_Draw_defined [of "fst (projr (Game_Update recording_library idle_input
      closed_overlay 1 example_game))"]
  obtain evs where "Game_Draw (fst (projr (Game_Update recording_library idle_input
      closed_overlay 1 example_game))) = Inr evs"
    by (auto simp: idle_frame_activeCamera)
  then show ?thesis by simp
qed

lemma example_game_activeCamera: "activeCamera example_game = 0"
  by (simp add: example_game_def Let_def)

section \<open>The claims\<close>

text \<open>
  Claim C1. Every projection matrix is built with the near distance 0.01 and the far distance
  1000, and the claim adds that these are the stored clip distances. The code keeps the two
  apart: the constructor stores \<open>nearP = 0.1\<close> and \<open>farP = 1000\<close>, while
  \<open>UpdateProjectionMatrix\<close> passes the literals 0.01 and 1000 and never reads the stored
  fields. For the first camera of \<open>Game::Init\<close> the stored near distance is 0.1 and the one
  the matrix is built with is 0.01; and whatever is stored in \<open>nearP\<close> and \<open>farP\<close>, the
  matrix is built with 0.01 and 1000.
\<close>

theorem Camera_clip_planes_stored_and_used:
  "nearP (Camera_new lib 10 0 (- 10) 5 10 (pi / 2) (1280 / 720)) = 0.1
   \<and> farP (Camera_new lib 10 0 (- 10) 5 10 (pi / 2) (1280 / 720)) = 1000
   \<and> GetProjection (Camera_new lib 10 0 (- 10) 5 10 (pi / 2) (1280 / 720))
       = XMMatrixPerspectiveFovLH lib (pi / 2) (1280 / 720) 0.01 1000
   \<and> nearP (Camera_new lib 10 0 (- 10) 5 10 (pi / 2) (1280 / 720)) \<noteq> 0.01
   \<and> GetProjection (UpdateProjectionMatrix lib a (c\<lparr>nearP := n, farP := f\<rparr>))
       = XMMatrixPerspectiveFovLH lib (fov c) a 0.01 1000"
  by (simp add: Camera_new_def UpdateProjectionMatrix_def UpdateViewMatrix_def GetProjection_def)

text \<open>
  Claim C2, as amended. In every frame that runs without undefined behaviour, the phases occur
  in this order: first the scripted transforms of the entities are advanced, then the active
  camera is advanced by \<open>Update\<close>, then each entity is drawn, then the frame is presented.
  \<open>Update\<close> is called once, on the camera that is active when the frame is drawn, and each
  of the five entities is drawn against that camera. (The claim puts the camera first.)
\<close>

theorem frame_phase_order:
  assumes "Game_Update lib input ui deltaTime g = Inr (g', evU)" and "Game_Draw g' = Inr evD"
  shows "frame_phases (evU @ evD) = [AdvanceEntities, AdvanceCamera, DrawEntities, PresentFrame]
         \<and> filter is_CameraUpdate evU = [EvCameraUpdate (activeCamera g') deltaTime]
         \<and> filter is_EntityDraw evD = map (\<lambda>i. EvEntityDraw i (activeCamera g')) [0..<5]"
proof -
  have "frame_phases (evU @ evD) = [AdvanceEntities, AdvanceCamera, DrawEntities, PresentFrame]"
    using frame_phases_of_frame [OF assms] by simp
  moreover have "filter is_CameraUpdate evU = [EvCameraUpdate (activeCamera g') deltaTime]"
    using Game_Update_trace(2) [OF assms(1)] by simp
  moreover have "filter is_EntityDraw evD = map (\<lambda>i. EvEntityDraw i (activeCamera g')) [0..<5]"
    unfolding Game_Draw_trace [OF assms(2)] by (simp add: upt_0_5)
  ultimately show ?thesis by simp
qed

theorem frame_phase_order_witness:
  "Game_Update recording_library idle_input closed_overlay 1 example_game
     = Inr (fst (projr (Game_Update recording_library idle_input closed_overlay 1 example_game)),
            snd (projr (Game_Update recording_library idle_input closed_overlay 1 example_game)))
   \<and> Game_Draw (fst (projr (Game_Update recording_library idle_input closed_overlay 1
        example_game)))
     = Inr (projr (Game_Draw (fst (projr (Game_Update recording_library idle_input
        closed_overlay 1 example_game)))))
   \<and> frame_phases
       (snd (projr (Game_Update recording_library idle_input closed_overlay 1 example_game))
        @ projr (Game_Draw (fst (projr (Game_Update recording_library idle_input closed_overlay 1
            example_game)))))
     = [AdvanceEntities, AdvanceCamera, DrawEntities, PresentFrame]
   \<and> filter is_CameraUpdate
       (snd (projr (Game_Update recording_library idle_input closed_overlay 1 example_game)))
     = [EvCameraUpdate 0 1]"
proof -
  have u: "Game_Update recording_library idle_input closed_overlay 1 example_game
     = Inr (fst (projr (Game_Update recording_library idle_input closed_overlay 1 example_game)),
            snd (projr (Game_Update recording_library idle_input closed_overlay 1 example_game)))"
    using idle_frame_defined by simp
  show ?thesis
    using frame_phase_order [OF u idle_frame_draw] u idle_frame_draw idle_frame_activeCamera
    by simp
qed

text \<open>
  The claim as stated fails on the frame of the example game with no input: the trace of
  \<open>Game::Update\<close> has the five animation calls before the call of \<open>Camera::Update\<close>, so the
  phases of the frame are not in the claimed order.
\<close>

theorem frame_phase_order_counterexample:
  "snd (projr (Game_Update recording_library idle_input closed_overlay 1 example_game)) =
     [EvAnimate 0 (CallMoveAbsolute 0.001 0.001 0),
      EvAnimate 4 (CallMoveAbsolute (- 0.001) (- 0.001) 0),
      EvAnimate 2 (CallScale 1.001 1.001 1),
      EvAnimate 3 (CallRotate 0 0 (XMConvertToRadians 10)),
      EvAnimate 1 (CallRotate 0 0 (XMConvertToRadians 10)),
      EvCameraUpdate 0 1]
   \<and> frame_phases
       (snd (projr (Game_Update recording_library idle_input closed_overlay 1 example_game))
        @ projr (Game_Draw (fst (projr (Game_Update recording_library idle_input closed_overlay 1
            example_game)))))
     \<noteq> [AdvanceCamera, AdvanceEntities, DrawEntities, PresentFrame]"
proof -
  have "frame_phases
       (snd (projr (Game_Update recording_library idle_input closed_overlay 1 example_game))
        @ projr (Game_Draw (fst (projr (Game_Update recording_library idle_input closed_overlay 1
            example_game)))))
     = [AdvanceEntities, AdvanceCamera, DrawEntities, PresentFrame]"
    by (rule frame_phases_of_frame [OF idle_frame_defined idle_frame_draw])
  then show ?thesis using idle_frame_trace by simp
qed

text \<open>
  Claim C3, as amended. \<open>xDiff\<close> and \<open>yDiff\<close> are \<open>int\<close> variables. While the left button
  is held, a call of \<open>Camera::Update\<close> that runs without undefined behaviour makes exactly one
  \<open>Rotate\<close> call on the transform: its pitch is the \<open>float\<close> product of \<open>mouseLookSpeed\<close> and
  the vertical cursor delta, truncated towards zero to an integer, times \<open>deltaTime\<close>; its yaw
  is the same with the horizontal delta; its roll is 0. All products are products of
  \<open>float\<close>, rounded to the nearest. Such a call runs without undefined behaviour when both
  products with \<open>mouseLookSpeed\<close> are below \<open>2^31\<close> in absolute value. While the button is not held,
  \<open>Update\<close> makes no \<open>Rotate\<close> call. The calls are the ones \<open>Update\<close> runs on the
  transform.
\<close>

theorem Update_rotate_call:
  "(MouseLeftDown input \<and> Update_calls input dt c = Inr calls \<longrightarrow>
      filter is_Rotate calls =
        [CallRotate
           (float_mul (int_to_float (truncate_float
              (float_mul (mouseLookSpeed c) (int_to_float (GetMouseYDelta input))))) dt)
           (float_mul (int_to_float (truncate_float
              (float_mul (mouseLookSpeed c) (int_to_float (GetMouseXDelta input))))) dt) 0])
   \<and> (\<bar>float_mul (mouseLookSpeed c) (int_to_float (GetMouseXDelta input))\<bar> < 2 ^ 31
        \<and> \<bar>float_mul (mouseLookSpeed c) (int_to_float (GetMouseYDelta input))\<bar> < 2 ^ 31 \<longrightarrow>
        (\<exists>calls'. Update_calls input dt c = Inr calls'))
   \<and> (\<not> MouseLeftDown input \<longrightarrow>
        (\<exists>calls'. Update_calls input dt c = Inr calls' \<and> filter is_Rotate calls' = []))
   \<and> (Camera_Update lib input dt c = Inr c' \<longrightarrow>
        (\<exists>calls'. Update_calls input dt c = Inr calls'
           \<and> GetTransform c' = run_calls lib (GetTransform c) calls'))"
proof -
  have "Camera_Update lib input dt c = Inr c' \<longrightarrow>
        (\<exists>calls'. Update_calls input dt c = Inr calls'
           \<and> GetTransform c' = run_calls lib (GetTransform c) calls')"
    by (auto simp: Camera_Update_def UpdateViewMatrix_def GetTransform_def split: sum.splits)
  then show ?thesis
    using Update_calls_held [of input dt c calls] Update_calls_defined [of c input dt]
      Update_calls_not_held [of input dt c]
    by blast
qed

theorem Update_rotate_call_witness:
  "MouseLeftDown held_input
   \<and> Update_calls held_input (1 / 64) example_camera
       = Inr [CallMoveRelative 0 0 (5 / 64), CallRotate (- 30 / 64) (40 / 64) 0]
   \<and> filter is_Rotate [CallMoveRelative 0 0 (5 / 64), CallRotate (- 30 / 64) (40 / 64) 0]
       = [CallRotate
           (float_mul (int_to_float (truncate_float
              (float_mul (mouseLookSpeed example_camera)
                 (int_to_float (GetMouseYDelta held_input))))) (1 / 64))
           (float_mul (int_to_float (truncate_float
              (float_mul (mouseLookSpeed example_camera)
                 (int_to_float (GetMouseXDelta held_input))))) (1 / 64)) 0]
   \<and> MouseLeftDown look_input
   \<and> Update_calls look_input 1 fine_camera = Inr [CallRotate 0 7 0]
   \<and> \<not> MouseLeftDown idle_input
   \<and> (\<exists>calls'. Update_calls idle_input (1 / 64) example_camera = Inr calls'
         \<and> filter is_Rotate calls' = [])"
proof -
  have h: "MouseLeftDown held_input" by (simp add: held_input_def)
  have l: "MouseLeftDown look_input" by (simp add: look_input_def)
  have i: "\<not> MouseLeftDown idle_input" by (simp add: idle_input_def)
  show ?thesis
    using Update_rotate_call [where input = held_input and dt = "1 / 64"
        and c = example_camera
        and calls = "[CallMoveRelative 0 0 (5 / 64), CallRotate (- 30 / 64) (40 / 64) 0]"
        and lib = recording_library and c' = example_camera]
      Update_rotate_call [where input = idle_input and dt = "1 / 64" and c = example_camera
        and calls = "[]" and lib = recording_library and c' = example_camera]
      h l i held_calls look_calls
    by simp
qed

text \<open>
  The claim as stated fails for a camera whose look sensitivity is one half, with the button
  held, the cursor moved by \<open>(1, 3)\<close> and a frame time of 1: the products are 0.5 and 1.5
  (both are values of \<open>float\<close>, so nothing is rounded), the \<open>int\<close> variables hold 0 and 1,
  and the one \<open>Rotate\<close> call gets the pitch 1 and the yaw 0, not 1.5 and 0.5.
\<close>

theorem Update_rotate_call_counterexample:
  "MouseLeftDown drag_input
   \<and> Update_calls drag_input 1 slow_camera = Inr [CallRotate 1 0 0]
   \<and> CallRotate 1 0 0
       \<noteq> CallRotate
            (float_mul (float_mul (mouseLookSpeed slow_camera)
                          (int_to_float (GetMouseYDelta drag_input))) 1)
            (float_mul (float_mul (mouseLookSpeed slow_camera)
                          (int_to_float (GetMouseXDelta drag_input))) 1) 0"
  by (simp add: drag_calls)
     (simp add: drag_input_def slow_camera_def Camera_new_def UpdateProjectionMatrix_def
        UpdateViewMatrix_def Let_def float_eval)

text \<open>
  Claim C4. After every call of \<open>Camera::Update\<close> the view matrix is the look-to matrix of
  the position and the forward vector of the transform as \<open>Update\<close> has left it, with the
  world up vector \<open>(0,1,0)\<close>; that transform is the one the calls of this \<open>Update\<close> have
  produced.
\<close>

theorem Update_recomputes_view:
  assumes "Camera_Update lib input dt c = Inr c'"
  shows "GetView c' = XMMatrixLookToLH lib (GetPosition (GetTransform c'))
                        (GetForward lib (GetTransform c')) (XMFLOAT3 0 1 0)
         \<and> (\<exists>calls. Update_calls input dt c = Inr calls
               \<and> GetTransform c' = run_calls lib (GetTransform c) calls)"
  using assms
  by (auto simp: Camera_Update_def UpdateViewMatrix_def GetView_def GetTransform_def
      split: sum.splits)

theorem Update_recomputes_view_witness:
  "Camera_Update recording_library held_input (1 / 64) example_camera
     = Inr (projr (Camera_Update recording_library held_input (1 / 64) example_camera))
   \<and> GetView (projr (Camera_Update recording_library held_input (1 / 64) example_camera))
     = XMMatrixLookToLH recording_library
         (GetPosition (GetTransform
            (projr (Camera_Update recording_library held_input (1 / 64) example_camera))))
         (GetForward recording_library (GetTransform
            (projr (Camera_Update recording_library held_input (1 / 64) example_camera))))
         (XMFLOAT3 0 1 0)
   \<and> GetView (projr (Camera_Update recording_library held_input (1 / 64) example_camera))
     = [10, 0, - 635 / 64, 0, 0, 1, 0, 1, 0]"
  using Update_recomputes_view [OF held_update] held_update held_view by simp

text \<open>
  Claim C5. With the active-camera index \<open>v\<close> among 0, 1 and 2, each switch of the camera
  maps \<open>v\<close> to \<open>(v + 1) mod 3\<close>: the statement itself, the overlay block of \<open>Game::Update\<close>
  when the button is clicked and \<open>C\<close> is not pressed, and the same block when \<open>C\<close> is pressed
  and the button is not clicked (with both in one frame the index moves twice). Three
  switches in a row return the index to where it was, in particular from 0 to 0.
\<close>

theorem camera_switch_cycles:
  assumes "activeCamera g \<in> {0, 1, 2}"
  shows "activeCamera (switch_camera g) = (activeCamera g + 1) mod 3
         \<and> (\<exists>s'. Update_overlay lib input ui (g, evs) = Inr s' \<and>
               activeCamera (fst s') =
                 (let v = activeCamera g;
                      v1 = (if camera_header ui \<and> change_camera_button ui
                            then (v + 1) mod 3 else v)
                  in if KeyPress input CHR ''C'' then (v1 + 1) mod 3 else v1))
         \<and> activeCamera (switch_camera (switch_camera (switch_camera g))) = activeCamera g"
proof -
  have one: "activeCamera (switch_camera g) = (activeCamera g + 1) mod 3"
    using assms by (rule activeCamera_switch_camera)
  have "activeCamera (switch_camera (switch_camera (switch_camera g))) = activeCamera g"
    using assms by (auto simp: switch_camera_def c_rem_def)
  with one Update_overlay_activeCamera [of "(g, evs)" lib input ui] assms
  show ?thesis by simp
qed

theorem camera_switch_cycles_witness:
  "activeCamera example_game \<in> {0, 1, 2}
   \<and> activeCamera (switch_camera example_game) = 1
   \<and> (\<exists>s'. Update_overlay recording_library idle_input button_overlay (example_game, []) = Inr s'
         \<and> activeCamera (fst s') = 1)
   \<and> (\<exists>s'. Update_overlay recording_library key_C_input closed_overlay (example_game, []) = Inr s'
         \<and> activeCamera (fst s') = 1)
   \<and> activeCamera (switch_camera (switch_camera (switch_camera example_game))) = 0"
proof -
  have h: "activeCamera example_game \<in> {0, 1, 2}"
    by (simp add: example_game_activeCamera)
  show ?thesis
    using camera_switch_cycles [OF h, of recording_library idle_input button_overlay "[]"]
      camera_switch_cycles [OF h, of recording_library key_C_input closed_overlay "[]"]
    by (simp add: example_game_activeCamera button_overlay_def closed_overlay_def
        idle_input_def key_C_input_def)
qed

text \<open>
  Claim C6. When the window has changed its size, \<open>Game::OnResize\<close> recomputes the
  projection matrix of each of the three cameras from that camera's field of view and the
  new aspect ratio, the width of the window divided by its height, and changes nothing else;
  it has done so when it returns, so that the next \<open>Draw\<close> finds the new matrices. (The
  height is taken to be positive: the quotient by 0 of the source is an infinity or NaN,
  which the numbers of this model do not have.)
\<close>

theorem OnResize_recomputes_projections:
  assumes "length (camera g) = 3" and "0 < windowHeight g"
  shows "camera (Game_OnResize lib g)
           = map (UpdateProjectionMatrix lib (real (windowWidth g) / real (windowHeight g)))
               (camera g)
         \<and> (\<forall>i<3. GetProjection (camera (Game_OnResize lib g) ! i)
                     = XMMatrixPerspectiveFovLH lib (GetFov (camera g ! i))
                         (real (windowWidth g) / real (windowHeight g)) 0.01 1000)
         \<and> Game_OnResize lib g = g\<lparr>camera := camera (Game_OnResize lib g)\<rparr>"
proof -
  have c: "camera (Game_OnResize lib g)
           = map (UpdateProjectionMatrix lib (real (windowWidth g) / real (windowHeight g)))
               (camera g)"
    by (simp add: Game_OnResize_cameras [OF assms(1)])
  have "GetProjection (camera (Game_OnResize lib g) ! i)
          = XMMatrixPerspectiveFovLH lib (GetFov (camera g ! i))
              (real (windowWidth g) / real (windowHeight g)) 0.01 1000" if "i < 3" for i
    using that assms(1) unfolding c
    by (simp add: UpdateProjectionMatrix_def GetProjection_def GetFov_def)
  moreover have "Game_OnResize lib g = g\<lparr>camera := camera (Game_OnResize lib g)\<rparr>"
    by (simp add: Game_OnResize_cameras [OF assms(1)])
  ultimately show ?thesis using c by blast
qed

theorem OnResize_recomputes_projections_witness:
  "length (camera (example_game\<lparr>windowWidth := 800, windowHeight := 600\<rparr>)) = 3
   \<and> 0 < windowHeight (example_game\<lparr>windowWidth := 800, windowHeight := 600\<rparr>)
   \<and> map GetProjection
       (camera (Game_OnResize recording_library
          (example_game\<lparr>windowWidth := 800, windowHeight := 600\<rparr>)))
     = [[pi / 2, 800 / 600, 0.01, 1000], [pi / 3, 800 / 600, 0.01, 1000],
        [pi / 4, 800 / 600, 0.01, 1000]]"
proof -
  have l: "length (camera (example_game\<lparr>windowWidth := 800, windowHeight := 600\<rparr>)) = 3"
    by (simp add: example_game_def Let_def Init_cameras_def)
  have h: "0 < windowHeight (example_game\<lparr>windowWidth := 800, windowHeight := 600\<rparr>)"
    by simp
  show ?thesis
    using OnResize_recomputes_projections [OF l h, of recording_library]
    by (simp add: example_game_def Let_def Init_cameras_def Camera_new_def
        UpdateProjectionMatrix_def UpdateViewMatrix_def GetProjection_def recording_library_def)
qed

text \<open>
  Claim C7. For a camera constructed with any field of view, in particular \<open>\<pi>/2\<close> at
  position \<open>(10,0,-10)\<close> with aspect ratio \<open>16/9\<close>, \<open>GetFov\<close> after
  \<open>UpdateProjectionMatrix\<close> returns exactly the value given to the constructor, and
  \<open>UpdateProjectionMatrix\<close> leaves the stored field of view of every camera unchanged,
  whatever the library puts into the projection matrix.
\<close>

theorem GetFov_after_UpdateProjectionMatrix:
  "GetFov (UpdateProjectionMatrix lib a (Camera_new lib px py pz ms mls f ar)) = f
   \<and> GetFov (UpdateProjectionMatrix lib (16 / 9)
        (Camera_new lib 10 0 (- 10) ms mls (pi / 2) (16 / 9))) = pi / 2
   \<and> GetFov (UpdateProjectionMatrix lib a c) = GetFov c"
  by (simp add: GetFov_def UpdateProjectionMatrix_def UpdateViewMatrix_def Camera_new_def)

text \<open>
  Claim C8. Calling \<open>UpdateProjectionMatrix\<close> twice with the same aspect ratio leaves the
  camera, and so its stored projection matrix, exactly as one call does.
\<close>

theorem UpdateProjectionMatrix_idempotent:
  "UpdateProjectionMatrix lib a (UpdateProjectionMatrix lib a c) = UpdateProjectionMatrix lib a c
   \<and> GetProjection (UpdateProjectionMatrix lib a (UpdateProjectionMatrix lib a c))
       = GetProjection (UpdateProjectionMatrix lib a c)"
  by (simp add: UpdateProjectionMatrix_def GetProjection_def)

text \<open>
  Claim C9. If the active-camera index is 0, 1 or 2, then it is so after a switch of the
  camera and after every \<open>Game::Update\<close>; \<open>Game::Update\<close> and \<open>Game::Draw\<close> then never
  read \<open>camera[activeCamera]\<close> outside the three elements of the array, and \<open>Draw\<close> runs to
  its end, also on the state \<open>Update\<close> leaves. (\<open>Update\<close> itself runs to its end at least
  whenever the left mouse button is not held; with the button held it does unless a cursor
  product leaves the range of \<open>int\<close>.)
\<close>

theorem activeCamera_in_bounds:
  assumes "activeCamera g \<in> {0, 1, 2}"
  shows "activeCamera (switch_camera g) \<in> {0, 1, 2}
         \<and> Game_Update lib input ui dt g \<noteq> Inl OutOfBounds
         \<and> (\<not> MouseLeftDown input \<longrightarrow> (\<exists>s. Game_Update lib input ui dt g = Inr s))
         \<and> (\<forall>s. Game_Update lib input ui dt g = Inr s \<longrightarrow>
               activeCamera (fst s) \<in> {0, 1, 2} \<and> (\<exists>evs. Game_Draw (fst s) = Inr evs))
         \<and> (\<exists>c. camera_at g (activeCamera g) = Inr c)
         \<and> (\<exists>evs. Game_Draw g = Inr evs)"
proof -
  have r: "0 \<le> activeCamera g" "activeCamera g < 3"
    using assms by auto
  have sw: "activeCamera (switch_camera g) \<in> {0, 1, 2}"
    using assms by (simp add: activeCamera_switch_camera mod3_in_range del: insert_iff)
  have up: "activeCamera (fst s) \<in> {0, 1, 2} \<and> (\<exists>evs. Game_Draw (fst s) = Inr evs)"
    if "Game_Update lib input ui dt g = Inr s" for s
  proof -
    have a: "activeCamera (fst s) \<in> {0, 1, 2}"
      using Game_Update_in_bounds(2) [OF assms that] .
    then have "0 \<le> activeCamera (fst s)" "activeCamera (fst s) < 3" by auto
    then have "\<exists>evs. Game_Draw (fst s) = Inr evs" by (rule Game_Draw_defined)
    with a show ?thesis by blast
  qed
  have "\<exists>c. camera_at g (activeCamera g) = Inr c"
    using r by (simp add: camera_at_def)
  moreover have "\<exists>evs. Game_Draw g = Inr evs"
    using r by (rule Game_Draw_defined)
  ultimately show ?thesis
    using sw up Game_Update_in_bounds(1) [OF assms, of lib input ui dt]
      Game_Update_defined [OF assms, of input lib ui dt]
    by blast
qed

theorem activeCamera_in_bounds_witness:
  "activeCamera example_game \<in> {0, 1, 2}
   \<and> activeCamera (switch_camera example_game) \<in> {0, 1, 2}
   \<and> Game_Update recording_library idle_input closed_overlay 1 example_game \<noteq> Inl OutOfBounds
   \<and> \<not> MouseLeftDown idle_input
   \<and> (\<exists>s. Game_Update recording_library idle_input closed_overlay 1 example_game = Inr s)
   \<and> activeCamera (fst (projr (Game_Update recording_library idle_input closed_overlay 1
        example_game))) \<in> {0, 1, 2}
   \<and> (\<exists>evs. Game_Draw (fst (projr (Game_Update recording_library idle_input closed_overlay 1
        example_game))) = Inr evs)
   \<and> (\<exists>evs. Game_Draw example_game = Inr evs)"
proof -
  have h: "activeCamera example_game \<in> {0, 1, 2}"
    by (simp add: example_game_activeCamera)
  have i: "\<not> MouseLeftDown idle_input"
    by (simp add: idle_input_def)
  show ?thesis
    using activeCamera_in_bounds [OF h, of recording_library idle_input closed_overlay 1]
      idle_frame_defined h i
    by blast
qed

text \<open>
  Claim C10. \<open>Camera::Update\<close> leaves the roll of the camera's transform as it was: every
  call it makes on the transform is a \<open>MoveRelative\<close> or a \<open>Rotate\<close> whose roll argument
  is 0, and with \<open>MoveRelative\<close> changing the position only and \<open>Rotate\<close> adding its
  arguments to the Euler angles, as the specification describes the two methods, the roll
  after a call of \<open>Update\<close> equals the roll before it.
\<close>

theorem Update_keeps_roll:
  assumes "Camera_Update lib input dt c = Inr c'"
  shows "get_z (pitchYawRoll (GetTransform c')) = get_z (pitchYawRoll (GetTransform c))
         \<and> (\<exists>calls. Update_calls input dt c = Inr calls
               \<and> (\<forall>call \<in> set calls.
                     is_MoveRelative call \<or> (\<exists>p yw. call = CallRotate p yw 0)))"
proof -
  from assms obtain calls where
    u: "Update_calls input dt c = Inr calls" and
    t: "transform c' = run_calls lib (transform c) calls"
    by (auto simp: Camera_Update_def UpdateViewMatrix_def split: sum.splits)
  have k: "\<forall>call \<in> set calls. is_MoveRelative call \<or> (\<exists>p yw. call = CallRotate p yw 0)"
    using u by (rule Update_calls_kinds)
  have "get_z (pitchYawRoll (GetTransform c')) = get_z (pitchYawRoll (GetTransform c))"
    unfolding GetTransform_def t by (rule run_calls_roll [OF k])
  with u k show ?thesis by blast
qed

theorem Update_keeps_roll_witness:
  "Camera_Update recording_library held_input (1 / 64) example_camera
     = Inr (projr (Camera_Update recording_library held_input (1 / 64) example_camera))
   \<and> pitchYawRoll (GetTransform example_camera) = XMFLOAT3 0 0 0
   \<and> pitchYawRoll (GetTransform
        (projr (Camera_Update recording_library held_input (1 / 64) example_camera)))
     = XMFLOAT3 (- 30 / 64) (40 / 64) 0
   \<and> get_z (pitchYawRoll (GetTransform
        (projr (Camera_Update recording_library held_input (1 / 64) example_camera))))
     = get_z (pitchYawRoll (GetTransform example_camera))"
proof -
  have e: "pitchYawRoll (GetTransform example_camera) = XMFLOAT3 0 0 0"
    by (simp add: GetTransform_def example_camera_def camera_eval)
  show ?thesis
    using Update_keeps_roll [OF held_update] held_update held_roll e
    by (simp add: GetTransform_def)
qed

end
